theory Spec2Isabelle
  imports Complex_Main "HOL-Library.Sublist" "HOL-Library.Log_Nat" "HOL-Library.AList"
begin

section \<open>Python values, exceptions and reports\<close>

text \<open>
  Both scripts are thin drivers around third-party libraries (pikepdf, pypdf, reportlab,
  python-docx). The scripts are embedded function by function; every library call is a
  field of an environment record, so that the theorems hold for every behaviour of the
  libraries. A Python \<open>str\<close> is a \<open>string\<close>, a Python exception is a value of \<open>exn\<close>,
  and a function that may raise returns \<open>exn + 'a\<close> with \<open>Inl\<close> for the exception.
\<close>

datatype pyval =
    PNone
  | PBool bool
  | PInt int
  | PFloat rat
  | PStr string
  | PList "pyval list"
  | PDict "(string \<times> pyval) list"

datatype exn =
    KeyError string
  | TypeError string
  | AttributeError string
  | LibraryError string

text \<open>\<open>str(e)\<close>: a \<open>KeyError\<close> prints the repr of its key, the others their message.\<close>

fun str_exn :: "exn \<Rightarrow> string" where
  "str_exn (KeyError k) = [CHR 0x27] @ k @ [CHR 0x27]"
| "str_exn (TypeError m) = m"
| "str_exn (AttributeError m) = m"
| "str_exn (LibraryError m) = m"

text \<open>A report is the dict handed to \<open>json.dumps\<close>, keys in insertion order.\<close>

type_synonym report = "(string \<times> pyval) list"

definition failure :: "exn \<Rightarrow> report" where
  "failure e = [(''success'', PBool False), (''error'', PStr (str_exn e))]"

definition bind_exn :: "exn + 'a \<Rightarrow> ('a \<Rightarrow> exn + 'b) \<Rightarrow> exn + 'b" where
  "bind_exn r f = (case r of Inl e \<Rightarrow> Inl e | Inr x \<Rightarrow> f x)"

section \<open>Python floats\<close>

text \<open>
  A Python \<open>float\<close> is an IEEE 754 binary64 number; a finite one is a rational, and every
  operation returns the double nearest to the exact result, ties going to the even
  significand. \<open>fl\<close> is that rounding for the normal range (which file sizes below
  \<open>2^63\<close>, the range of \<open>st_size\<close>, and the literals of the scripts never leave):
  \<open>exponent x\<close> is \<open>\<lfloor>log\<^sub>2 \<bar>x\<bar>\<rfloor>\<close> and the significand keeps 53 bits.
\<close>

definition round_half_even :: "rat \<Rightarrow> int" where
  "round_half_even x =
     (let f = \<lfloor>x\<rfloor>; d = x - of_int f
      in if d < 1 / 2 then f else if 1 / 2 < d then f + 1 else if even f then f else f + 1)"

definition exponent :: "rat \<Rightarrow> int" where
  "exponent x =
     (case quotient_of \<bar>x\<bar> of
        (a, b) \<Rightarrow> (let e = bitlen a - bitlen b in if 2 powi e \<le> \<bar>x\<bar> then e else e - 1))"

definition fl :: "rat \<Rightarrow> rat" where
  "fl x =
     (if x = 0 then 0
      else (let u = 2 powi (exponent x - 52) in of_int (round_half_even (x / u)) * u))"

text \<open>
  \<open>a / b\<close> on two \<open>int\<close>s with \<open>b \<noteq> 0\<close>, and \<open>x * y\<close> and \<open>x - y\<close> on two floats
  (an \<open>int\<close> operand such as \<open>100\<close> is converted to the float of the same value).
\<close>

definition truediv :: "int \<Rightarrow> int \<Rightarrow> rat" where
  "truediv a b = fl (of_int a / of_int b)"

definition float_mul :: "rat \<Rightarrow> rat \<Rightarrow> rat" where
  "float_mul x y = fl (x * y)"

definition float_sub :: "rat \<Rightarrow> rat \<Rightarrow> rat" where
  "float_sub x y = fl (x - y)"

text \<open>
  \<open>f"{x:.2f}"\<close>: the decimal with two fractional digits nearest to the exact value of
  \<open>x\<close>, ties to even; a negative \<open>x\<close> keeps its sign also when the digits are all zero.
\<close>

definition digit :: "nat \<Rightarrow> char" where
  "digit d = char_of (48 + d)"

function str_nat :: "nat \<Rightarrow> string" where
  "str_nat n = (if n < 10 then [digit n] else str_nat (n div 10) @ [digit (n mod 10)])"
  by pat_completeness auto
termination
  by (relation "measure id") auto

declare str_nat.simps [simp del]

definition format_2f :: "rat \<Rightarrow> string" where
  "format_2f x =
     (let n = nat (round_half_even (\<bar>x\<bar> * 100))
      in (if x < 0 then ''-'' else '''') @ str_nat (n div 100) @ ''.''
         @ [digit (n mod 100 div 10), digit (n mod 10)])"

section \<open>docx_to_pdf.py\<close>

subsection \<open>The document model read by python-docx\<close>

text \<open>
  \<open>run.bold\<close>, \<open>run.italic\<close> and \<open>run.underline\<close> are tri-state (\<open>True\<close>, \<open>False\<close>,
  \<open>None\<close> for inherited); the script only tests their truth value, so an underline
  style other than the single line, which is true as a condition, is \<open>Some True\<close> here.
\<close>

record run =
  run_text :: string
  bold :: "bool option"
  italic :: "bool option"
  underline :: "bool option"

text \<open>The members of \<open>WD_ALIGN_PARAGRAPH\<close>.\<close>

datatype wd_align =
    LEFT | CENTER | RIGHT | JUSTIFY | DISTRIBUTE
  | JUSTIFY_MED | JUSTIFY_HI | JUSTIFY_LOW | THAI_JUSTIFY

text \<open>
  \<open>para.style.name\<close> is \<open>None\<close> for a style without a name; \<open>para.alignment\<close> is
  \<open>None\<close> when the paragraph sets none. A table is its rows of cell texts.
\<close>

record docx_paragraph =
  runs :: "run list"
  style_name :: "string option"
  alignment :: "wd_align option"

record document =
  paragraphs :: "docx_paragraph list"
  tables :: "string list list list"

definition truthy :: "bool option \<Rightarrow> bool" where
  "truthy b = (b = Some True)"

subsection \<open>parse_docx_paragraph\<close>

text \<open>
  The body of the loop for a run with text: three successive \<open>if\<close>s, each wrapping the
  string built so far.
\<close>

definition markup_run :: "run \<Rightarrow> string" where
  "markup_run r =
     (let t = run_text r;
          t = (if truthy (bold r) then ''<b>'' @ t @ ''</b>'' else t);
          t = (if truthy (italic r) then ''<i>'' @ t @ ''</i>'' else t);
          t = (if truthy (underline r) then ''<u>'' @ t @ ''</u>'' else t)
      in t)"

fun text_parts :: "run list \<Rightarrow> string list" where
  "text_parts [] = []"
| "text_parts (r # rs) =
     (if run_text r = [] then text_parts rs else markup_run r # text_parts rs)"

definition parse_docx_paragraph :: "docx_paragraph \<Rightarrow> string" where
  "parse_docx_paragraph para = concat (text_parts (runs para))"

text \<open>
  The nesting order as the specification words it: bold outermost, then italic, then
  underline.
\<close>

definition spec_markup_run :: "run \<Rightarrow> string" where
  "spec_markup_run r =
     (let t = run_text r;
          t = (if truthy (underline r) then ''<u>'' @ t @ ''</u>'' else t);
          t = (if truthy (italic r) then ''<i>'' @ t @ ''</i>'' else t);
          t = (if truthy (bold r) then ''<b>'' @ t @ ''</b>'' else t)
      in t)"

subsection \<open>Strings\<close>

text \<open>
  \<open>str.strip()\<close> removes the characters for which \<open>str.isspace\<close> holds from both ends.
  A \<open>char\<close> is read as the code point below 256 it numbers; the white space there is
  9 to 13, 28 to 32, 133 and 160.
\<close>

definition isspace :: "char \<Rightarrow> bool" where
  "isspace c = (of_char c \<in> {9, 10, 11, 12, 13, 28, 29, 30, 31, 32, 133, 160 :: nat})"

definition strip :: "string \<Rightarrow> string" where
  "strip s = rev (dropWhile isspace (rev (dropWhile isspace s)))"

text \<open>
  \<open>s.replace(old, new)\<close>: every occurrence of \<open>old\<close>, found from the left and not
  overlapping, becomes \<open>new\<close>; an empty \<open>old\<close> matches before every character and at
  the end.
\<close>

function replace_scan :: "string \<Rightarrow> string \<Rightarrow> string \<Rightarrow> string" where
  "replace_scan old new [] = []"
| "replace_scan old new (c # cs) =
     (if old \<noteq> [] \<and> prefix old (c # cs)
      then new @ replace_scan old new (drop (length old) (c # cs))
      else c # replace_scan old new cs)"
  by pat_completeness auto
termination
  by (relation "measure (\<lambda>(old, new, s). length s)") (auto simp: neq_Nil_conv)

definition replace :: "string \<Rightarrow> string \<Rightarrow> string \<Rightarrow> string" where
  "replace s old new =
     (if old = [] then new @ concat (map (\<lambda>c. c # new) s) else replace_scan old new s)"

subsection \<open>get_alignment\<close>

datatype ta = TA_LEFT | TA_CENTER | TA_RIGHT | TA_JUSTIFY

fun get_alignment :: "docx_paragraph \<Rightarrow> ta" where
  "get_alignment para =
     (case alignment para of
        None \<Rightarrow> TA_LEFT
      | Some a \<Rightarrow>
          (if a = CENTER then TA_CENTER
           else if a = RIGHT then TA_RIGHT
           else if a = JUSTIFY then TA_JUSTIFY
           else TA_LEFT))"

subsection \<open>The flowables handed to reportlab\<close>

record pstyle =
  pstyle_name :: string
  parent :: string
  fontSize :: int
  textColor :: string
  spaceAfter :: int
  spaceBefore :: "int option"
  style_alignment :: ta

text \<open>
  A table style command is a tuple: its name, the two corner cells and its arguments.
\<close>

datatype table_cmd = Cmd string "int \<times> int" "int \<times> int" "pyval list"

text \<open>\<open>inch\<close> is the float 72.0.\<close>

definition inch :: rat where
  "inch = 72"

datatype flowable =
    Para string pstyle
  | Spacer int rat
  | TableF "string list list" "table_cmd list"

record doc_template =
  filename :: string
  pagesize :: "rat \<times> rat"
  rightMargin :: int
  leftMargin :: int
  topMargin :: int
  bottomMargin :: int

definition letter :: "rat \<times> rat" where
  "letter = (612, 792)"

subsection \<open>The libraries and the file system\<close>

text \<open>
  The world \<open>'w\<close> is the file system. \<open>Document\<close> is python-docx's loader;
  \<open>Paragraph\<close> and \<open>Table\<close> are reportlab's constructors, which either build the
  flowable (\<open>None\<close>) or raise; \<open>build\<close> renders the story to the template's file and
  leaves a new world, also when it raises.
\<close>

record 'w docx_env =
  path_exists :: "'w \<Rightarrow> string \<Rightarrow> bool"
  Document :: "'w \<Rightarrow> string \<Rightarrow> exn + document"
  Paragraph :: "string \<Rightarrow> pstyle \<Rightarrow> exn option"
  Table :: "string list list \<Rightarrow> exn option"
  build :: "doc_template \<Rightarrow> flowable list \<Rightarrow> 'w \<Rightarrow> exn option \<times> 'w"
  getsize :: "'w \<Rightarrow> string \<Rightarrow> exn + nat"

subsection \<open>docx_to_pdf\<close>

text \<open>The style chosen from the paragraph's style name, first match first.\<close>

definition choose_style :: "string \<Rightarrow> ta \<Rightarrow> pstyle" where
  "choose_style sn al =
     (if sublist ''Heading 1'' sn \<or> sublist ''Title'' sn then
        \<lparr>pstyle_name = ''CustomHeading1'', parent = ''Heading1'', fontSize = 18,
         textColor = ''black'', spaceAfter = 12, spaceBefore = Some 12, style_alignment = al\<rparr>
      else if sublist ''Heading 2'' sn then
        \<lparr>pstyle_name = ''CustomHeading2'', parent = ''Heading2'', fontSize = 14,
         textColor = ''black'', spaceAfter = 10, spaceBefore = Some 10, style_alignment = al\<rparr>
      else if sublist ''Heading 3'' sn then
        \<lparr>pstyle_name = ''CustomHeading3'', parent = ''Heading3'', fontSize = 12,
         textColor = ''black'', spaceAfter = 8, spaceBefore = Some 8, style_alignment = al\<rparr>
      else
        \<lparr>pstyle_name = ''CustomNormal'', parent = ''Normal'', fontSize = 11,
         textColor = ''black'', spaceAfter = 6, spaceBefore = None, style_alignment = al\<rparr>)"

text \<open>The text of the retry: the six markers are replaced by nothing, one after the other.\<close>

definition strip_markup :: "string \<Rightarrow> string" where
  "strip_markup t =
     replace (replace (replace (replace (replace (replace t
       ''<b>'' '''') ''</b>'' '''') ''<i>'' '''') ''</i>'' '''') ''<u>'' '''') ''</u>'' ''''"

text \<open>
  The inner \<open>try\<close>: the styled block, or, when its construction raises, the block of the
  stripped text; an exception of the retry is not caught here.
\<close>

definition create_paragraph :: "'w docx_env \<Rightarrow> string \<Rightarrow> pstyle \<Rightarrow> exn + flowable" where
  "create_paragraph env t style =
     (case Paragraph env t style of
        None \<Rightarrow> Inr (Para t style)
      | Some e \<Rightarrow>
          (case Paragraph env (strip_markup t) style of
             None \<Rightarrow> Inr (Para (strip_markup t) style)
           | Some e' \<Rightarrow> Inl e'))"

text \<open>
  The style of a paragraph. A style without a name makes the test
  \<open>'Heading 1' in style_name\<close> raise a \<open>TypeError\<close>.
\<close>

definition paragraph_style :: "docx_paragraph \<Rightarrow> exn + pstyle" where
  "paragraph_style para =
     (case style_name para of
        None \<Rightarrow> Inl (TypeError ''argument of type 'NoneType' is not iterable'')
      | Some sn \<Rightarrow> Inr (choose_style sn (get_alignment para)))"

text \<open>One turn of the loop over the paragraphs.\<close>

definition paragraph_flowable :: "'w docx_env \<Rightarrow> docx_paragraph \<Rightarrow> exn + flowable" where
  "paragraph_flowable env para =
     (let t = parse_docx_paragraph para in
      if strip t = [] then Inr (Spacer 1 (float_mul (fl (2 / 10)) inch))
      else bind_exn (paragraph_style para) (create_paragraph env t))"

fun paragraphs_story :: "'w docx_env \<Rightarrow> docx_paragraph list \<Rightarrow> exn + flowable list" where
  "paragraphs_story env [] = Inr []"
| "paragraphs_story env (para # ps) =
     bind_exn (paragraph_flowable env para) (\<lambda>f.
     bind_exn (paragraphs_story env ps) (\<lambda>fs. Inr (f # fs)))"

definition table_style :: "table_cmd list" where
  "table_style =
     [Cmd ''BACKGROUND'' (0, 0) (-1, 0) [PStr ''grey''],
      Cmd ''TEXTCOLOR'' (0, 0) (-1, 0) [PStr ''whitesmoke''],
      Cmd ''ALIGN'' (0, 0) (-1, -1) [PStr ''CENTER''],
      Cmd ''FONTNAME'' (0, 0) (-1, 0) [PStr ''Helvetica-Bold''],
      Cmd ''FONTSIZE'' (0, 0) (-1, 0) [PInt 12],
      Cmd ''BOTTOMPADDING'' (0, 0) (-1, 0) [PInt 12],
      Cmd ''BACKGROUND'' (0, 1) (-1, -1) [PStr ''beige''],
      Cmd ''GRID'' (0, 0) (-1, -1) [PInt 1, PStr ''black'']]"

definition table_data :: "string list list \<Rightarrow> string list list" where
  "table_data rows = map (map strip) rows"

fun tables_story :: "'w docx_env \<Rightarrow> string list list list \<Rightarrow> exn + flowable list" where
  "tables_story env [] = Inr []"
| "tables_story env (t # ts) =
     (if table_data t \<noteq> [] then
        (case Table env (table_data t) of
           Some e \<Rightarrow> Inl e
         | None \<Rightarrow>
             bind_exn (tables_story env ts) (\<lambda>fs.
               Inr (TableF (table_data t) table_style # Spacer 1 (float_mul (fl (3 / 10)) inch) # fs)))
      else tables_story env ts)"

definition template :: "string \<Rightarrow> doc_template" where
  "template output_path =
     \<lparr>filename = output_path, pagesize = letter, rightMargin = 72, leftMargin = 72,
      topMargin = 72, bottomMargin = 72\<rparr>"

text \<open>The story: the flowables of the paragraphs, then those of the tables.\<close>

definition make_story :: "'w docx_env \<Rightarrow> document \<Rightarrow> exn + flowable list" where
  "make_story env doc =
     bind_exn (paragraphs_story env (paragraphs doc)) (\<lambda>ps.
     bind_exn (tables_story env (tables doc)) (\<lambda>ts. Inr (ps @ ts)))"

definition docx_to_pdf :: "'w docx_env \<Rightarrow> 'w \<Rightarrow> string \<Rightarrow> string \<Rightarrow> report \<times> 'w" where
  "docx_to_pdf env w input_path output_path =
     (case Document env w input_path of
        Inl e \<Rightarrow> (failure e, w)
      | Inr doc \<Rightarrow>
          (case make_story env doc of
             Inl e \<Rightarrow> (failure e, w)
           | Inr story \<Rightarrow>
               (case build env (template output_path) story w of
                  (Some e, w') \<Rightarrow> (failure e, w')
                | (None, w') \<Rightarrow>
                    (case getsize env w' output_path of
                       Inl e \<Rightarrow> (failure e, w')
                     | Inr output_size \<Rightarrow>
                         ([(''success'', PBool True),
                           (''paragraphs'', PInt (int (length (paragraphs doc)))),
                           (''tables'', PInt (int (length (tables doc)))),
                           (''output_size'', PInt (int output_size)),
                           (''format'', PStr ''pdf'')], w')))))"

text \<open>
  The flowable of a paragraph as the specification describes it: a spacer for a blank
  paragraph, else the styled block of the marked-up text, and when that construction
  fails the block of the stripped text in the same style.
\<close>

definition spec_paragraph_flowable :: "'w docx_env \<Rightarrow> docx_paragraph \<Rightarrow> flowable" where
  "spec_paragraph_flowable env para =
     (let t = parse_docx_paragraph para; style = projr (paragraph_style para) in
      if strip t = [] then Spacer 1 (float_mul (fl (2 / 10)) inch)
      else if Paragraph env t style = None then Para t style
      else Para (strip_markup t) style)"

subsection \<open>main\<close>

text \<open>What a run of a script leaves: the lines printed, the exit code and the world.\<close>

record 'w outcome =
  stdout :: "report list"
  exit_code :: int
  world :: 'w

text \<open>\<open>result['success']\<close> read as a condition.\<close>

definition success :: "report \<Rightarrow> bool" where
  "success r = (map_of r ''success'' = Some (PBool True))"

text \<open>\<open>argv\<close> is \<open>sys.argv\<close>, the script's name first.\<close>

definition docx_main :: "'w docx_env \<Rightarrow> 'w \<Rightarrow> string list \<Rightarrow> 'w outcome" where
  "docx_main env w argv =
     (if length argv < 3 then
        \<lparr>stdout = [[(''success'', PBool False),
                     (''error'', PStr ''Usage: python docx_to_pdf.py <input.docx> <output.pdf>'')]],
         exit_code = 1, world = w\<rparr>
      else
        (let input_path = argv ! 1; output_path = argv ! 2 in
         if \<not> path_exists env w input_path then
           \<lparr>stdout = [[(''success'', PBool False),
                        (''error'', PStr (''Input file not found: '' @ input_path))]],
            exit_code = 1, world = w\<rparr>
         else
           (case docx_to_pdf env w input_path output_path of
              (result, w') \<Rightarrow>
                \<lparr>stdout = [result], exit_code = (if success result then 0 else 1),
                 world = w'\<rparr>)))"

text \<open>
  The script as a whole: when an import at its head fails, the report of the missing
  library is printed and the process exits with 1 before \<open>main\<close> is reached.
\<close>

definition docx_script :: "exn option \<Rightarrow> 'w docx_env \<Rightarrow> 'w \<Rightarrow> string list \<Rightarrow> 'w outcome" where
  "docx_script import_error env w argv =
     (case import_error of
        Some e \<Rightarrow>
          \<lparr>stdout = [[(''success'', PBool False),
                       (''error'', PStr (''Missing required library: '' @ str_exn e)),
                       (''installed'', PStr ''python-docx, reportlab should be installed'')]],
           exit_code = 1, world = w\<rparr>
      | None \<Rightarrow> docx_main env w argv)"

section \<open>pdf_helper.py\<close>

subsection \<open>Dictionaries\<close>

text \<open>\<open>d.get(k, default)\<close> and \<open>d[k]\<close> on a dict kept as an association list.\<close>

definition dict_get :: "(string \<times> 'v) list \<Rightarrow> string \<Rightarrow> 'v \<Rightarrow> 'v" where
  "dict_get d k dflt = (case map_of d k of Some v \<Rightarrow> v | None \<Rightarrow> dflt)"

definition dict_item :: "(string \<times> 'v) list \<Rightarrow> string \<Rightarrow> exn + 'v" where
  "dict_item d k = (case map_of d k of Some v \<Rightarrow> Inr v | None \<Rightarrow> Inl (KeyError k))"

fun type_name :: "pyval \<Rightarrow> string" where
  "type_name PNone = ''NoneType''"
| "type_name (PBool b) = ''bool''"
| "type_name (PInt i) = ''int''"
| "type_name (PFloat x) = ''float''"
| "type_name (PStr s) = ''str''"
| "type_name (PList xs) = ''list''"
| "type_name (PDict d) = ''dict''"

text \<open>\<open>options.get(k, default)\<close> on whatever \<open>json.loads\<close> returned.\<close>

definition options_get :: "pyval \<Rightarrow> string \<Rightarrow> pyval \<Rightarrow> exn + pyval" where
  "options_get options k dflt =
     (case options of
        PDict d \<Rightarrow> Inr (dict_get d k dflt)
      | _ \<Rightarrow> Inl (AttributeError
                ([CHR 0x27] @ type_name options @ [CHR 0x27] @ '' object has no attribute 'get'' @ [CHR 0x27])))"

text \<open>\<open>color[k]\<close> with a string key.\<close>

definition subscript :: "pyval \<Rightarrow> string \<Rightarrow> exn + pyval" where
  "subscript v k =
     (case v of
        PDict d \<Rightarrow> dict_item d k
      | PList xs \<Rightarrow> Inl (TypeError ''list indices must be integers or slices, not str'')
      | PStr s \<Rightarrow> Inl (TypeError (''string indices must be integers, not 'str'' @ [CHR 0x27]))
      | _ \<Rightarrow> Inl (TypeError
                ([CHR 0x27] @ type_name v @ [CHR 0x27] @ '' object is not subscriptable'')))"

subsection \<open>The libraries and the file system\<close>

text \<open>The calls the script makes on a reportlab canvas, with their arguments.\<close>

datatype canvas_op =
    SetFillColor pyval pyval pyval pyval
  | SetFont string pyval
  | StringWidth string string pyval
  | SaveState
  | Translate rat rat
  | Rotate pyval
  | DrawCentredString rat rat string
  | RestoreState
  | Save

text \<open>
  \<open>Pdf_open\<close> and \<open>Pdf_save\<close> are pikepdf's; \<open>PdfReader\<close> gives the pages of the file,
  \<open>mediabox\<close> a page's width and height as floats; \<open>Canvas\<close> makes a canvas of a page
  size, \<open>canvas_call\<close> is one call on it, \<open>overlay_page\<close> reads the first page of
  what the canvas saved; \<open>merge_page\<close> merges the overlay onto the page and adds the
  page to the writer; \<open>write_pdf\<close> opens the output file and writes the writer's pages
  to it. The calls that write leave a new world, also when they raise.
\<close>

record ('w, 'pdf, 'page, 'canvas) pdf_env =
  Pdf_open :: "'w \<Rightarrow> string \<Rightarrow> exn + 'pdf"
  Pdf_save :: "'pdf \<Rightarrow> string \<Rightarrow> (string \<times> pyval) list \<Rightarrow> 'w \<Rightarrow> exn option \<times> 'w"
  os_path_getsize :: "'w \<Rightarrow> string \<Rightarrow> exn + nat"
  PdfReader :: "'w \<Rightarrow> string \<Rightarrow> exn + 'page list"
  mediabox :: "'page \<Rightarrow> exn + rat \<times> rat"
  Canvas :: "rat \<times> rat \<Rightarrow> exn + 'canvas"
  canvas_call :: "'canvas \<Rightarrow> canvas_op \<Rightarrow> exn + 'canvas"
  overlay_page :: "'canvas \<Rightarrow> exn + 'page"
  merge_page :: "'page \<Rightarrow> 'page \<Rightarrow> exn + 'page"
  write_pdf :: "string \<Rightarrow> 'page list \<Rightarrow> 'w \<Rightarrow> exn option \<times> 'w"
  json_loads :: "string \<Rightarrow> exn + pyval"

subsection \<open>compress_pdf\<close>

definition save_options :: "(string \<times> (string \<times> pyval) list) list" where
  "save_options =
     [(''low'',
        [(''compress_streams'', PBool True), (''stream_decode_level'', PInt 0),
         (''object_stream_mode'', PInt 0), (''recompress_flate'', PBool False)]),
      (''medium'',
        [(''compress_streams'', PBool True), (''stream_decode_level'', PInt 1),
         (''object_stream_mode'', PInt 1), (''recompress_flate'', PBool True)]),
      (''high'',
        [(''compress_streams'', PBool True), (''stream_decode_level'', PInt 2),
         (''object_stream_mode'', PInt 2), (''recompress_flate'', PBool True)]),
      (''extreme'',
        [(''compress_streams'', PBool True), (''stream_decode_level'', PInt 3),
         (''object_stream_mode'', PInt 2), (''recompress_flate'', PBool True),
         (''normalize_content'', PBool True)])]"

text \<open>\<open>save_options.get(level, save_options['medium'])\<close>.\<close>

definition level_options :: "string \<Rightarrow> exn + (string \<times> pyval) list" where
  "level_options level =
     bind_exn (dict_item save_options ''medium'') (\<lambda>dflt. Inr (dict_get save_options level dflt))"

text \<open>
  \<open>(saved_bytes / input_size * 100) if input_size > 0 else 0\<close>; the \<open>int\<close> 0 of the
  guard formats as the float 0.0 does.
\<close>

definition compression_ratio :: "nat \<Rightarrow> nat \<Rightarrow> rat" where
  "compression_ratio input_size output_size =
     (let saved_bytes = int input_size - int output_size
      in if input_size > 0 then float_mul (truediv saved_bytes (int input_size)) 100 else 0)"

definition compress_pdf ::
    "('w, 'pdf, 'page, 'canvas) pdf_env \<Rightarrow> 'w \<Rightarrow> string \<Rightarrow> string \<Rightarrow> string \<Rightarrow> report \<times> 'w" where
  "compress_pdf env w input_path output_path level =
     (case Pdf_open env w input_path of
        Inl e \<Rightarrow> (failure e, w)
      | Inr pdf \<Rightarrow>
          (case level_options level of
             Inl e \<Rightarrow> (failure e, w)
           | Inr options \<Rightarrow>
               (case Pdf_save env pdf output_path options w of
                  (Some e, w') \<Rightarrow> (failure e, w')
                | (None, w') \<Rightarrow>
                    (case os_path_getsize env w' input_path of
                       Inl e \<Rightarrow> (failure e, w')
                     | Inr input_size \<Rightarrow>
                         (case os_path_getsize env w' output_path of
                            Inl e \<Rightarrow> (failure e, w')
                          | Inr output_size \<Rightarrow>
                              ([(''success'', PBool True),
                                (''original_size'', PInt (int input_size)),
                                (''compressed_size'', PInt (int output_size)),
                                (''saved_bytes'', PInt (int input_size - int output_size)),
                                (''compression_ratio'',
                                   PStr (format_2f (compression_ratio input_size output_size) @ ''%'')),
                                (''level'', PStr level)], w'))))))"

subsection \<open>add_watermark\<close>

text \<open>
  The drawing calls of one page, by position; a position that is none of the four draws
  nothing. The page size is a pair of floats; halving a float is exact.
\<close>

definition position_ops :: "pyval \<Rightarrow> rat \<Rightarrow> rat \<Rightarrow> pyval \<Rightarrow> string \<Rightarrow> canvas_op list" where
  "position_ops position page_width page_height rotation txt =
     (if position = PStr ''diagonal'' then
        (let center_x = page_width / 2; center_y = page_height / 2
         in [SaveState, Translate center_x center_y, Rotate rotation,
             DrawCentredString 0 0 txt, RestoreState])
      else if position = PStr ''center'' then
        (let center_x = page_width / 2; center_y = page_height / 2
         in [DrawCentredString center_x center_y txt])
      else if position = PStr ''top'' then
        (let center_x = page_width / 2
         in [DrawCentredString center_x (float_sub page_height 50) txt])
      else if position = PStr ''bottom'' then
        (let center_x = page_width / 2
         in [DrawCentredString center_x 50 txt])
      else [])"

text \<open>All the calls on the canvas of one page, in the order the script makes them.\<close>

definition page_ops ::
    "string \<Rightarrow> pyval \<Rightarrow> pyval \<Rightarrow> pyval \<Rightarrow> pyval \<Rightarrow> pyval \<Rightarrow> pyval \<Rightarrow> pyval \<Rightarrow> rat \<Rightarrow> rat
     \<Rightarrow> canvas_op list" where
  "page_ops txt opacity font_size rotation position r g b page_width page_height =
     [SetFillColor r g b opacity, SetFont ''Helvetica-Bold'' font_size,
      StringWidth txt ''Helvetica-Bold'' font_size]
     @ position_ops position page_width page_height rotation txt
     @ [Save]"

fun canvas_calls ::
    "('w, 'pdf, 'page, 'canvas) pdf_env \<Rightarrow> 'canvas \<Rightarrow> canvas_op list \<Rightarrow> exn + 'canvas" where
  "canvas_calls env can [] = Inr can"
| "canvas_calls env can (c # cs) =
     bind_exn (canvas_call env can c) (\<lambda>can'. canvas_calls env can' cs)"

text \<open>The body of the loop over the pages.\<close>

definition watermark_page ::
    "('w, 'pdf, 'page, 'canvas) pdf_env \<Rightarrow> string \<Rightarrow> pyval \<Rightarrow> pyval \<Rightarrow> pyval \<Rightarrow> pyval \<Rightarrow> pyval
     \<Rightarrow> 'page \<Rightarrow> exn + 'page" where
  "watermark_page env txt opacity font_size rotation position color page =
     bind_exn (mediabox env page) (\<lambda>(page_width, page_height).
     bind_exn (Canvas env (page_width, page_height)) (\<lambda>can.
     bind_exn (subscript color ''r'') (\<lambda>r.
     bind_exn (subscript color ''g'') (\<lambda>g.
     bind_exn (subscript color ''b'') (\<lambda>b.
     bind_exn (canvas_calls env can
        (page_ops txt opacity font_size rotation position r g b page_width page_height)) (\<lambda>can'.
     bind_exn (overlay_page env can') (\<lambda>watermark_page'.
     merge_page env page watermark_page')))))))"

fun watermark_pages ::
    "('w, 'pdf, 'page, 'canvas) pdf_env \<Rightarrow> string \<Rightarrow> pyval \<Rightarrow> pyval \<Rightarrow> pyval \<Rightarrow> pyval \<Rightarrow> pyval
     \<Rightarrow> 'page list \<Rightarrow> exn + 'page list" where
  "watermark_pages env txt opacity font_size rotation position color [] = Inr []"
| "watermark_pages env txt opacity font_size rotation position color (page # pages) =
     bind_exn (watermark_page env txt opacity font_size rotation position color page) (\<lambda>p.
     bind_exn (watermark_pages env txt opacity font_size rotation position color pages) (\<lambda>ps.
     Inr (p # ps)))"

text \<open>The five \<open>options.get\<close> calls, after \<open>None\<close> has become the empty dict.\<close>

definition watermark_options :: "pyval \<Rightarrow> exn + pyval \<times> pyval \<times> pyval \<times> pyval \<times> pyval" where
  "watermark_options options0 =
     (let options = (if options0 = PNone then PDict [] else options0) in
      bind_exn (options_get options ''opacity'' (PFloat (fl (3 / 10)))) (\<lambda>opacity.
      bind_exn (options_get options ''fontSize'' (PInt 48)) (\<lambda>font_size.
      bind_exn (options_get options ''rotation'' (PInt 45)) (\<lambda>rotation.
      bind_exn (options_get options ''position'' (PStr ''diagonal'')) (\<lambda>position.
      bind_exn (options_get options ''color''
          (PDict [(''r'', PFloat (1 / 2)), (''g'', PFloat (1 / 2)), (''b'', PFloat (1 / 2))])) (\<lambda>color.
      Inr (opacity, font_size, rotation, position, color)))))))"

text \<open>
  Everything before the output file is opened: the options, the reader and the loop.
  It yields the pages of the writer, the number of pages of the reader and the position.
\<close>

definition watermark_prepare ::
    "('w, 'pdf, 'page, 'canvas) pdf_env \<Rightarrow> 'w \<Rightarrow> string \<Rightarrow> string \<Rightarrow> pyval
     \<Rightarrow> exn + 'page list \<times> nat \<times> pyval" where
  "watermark_prepare env w input_path txt options =
     bind_exn (watermark_options options) (\<lambda>(opacity, font_size, rotation, position, color).
     bind_exn (PdfReader env w input_path) (\<lambda>pages.
     bind_exn (watermark_pages env txt opacity font_size rotation position color pages) (\<lambda>out.
     Inr (out, length pages, position))))"

definition add_watermark ::
    "('w, 'pdf, 'page, 'canvas) pdf_env \<Rightarrow> 'w \<Rightarrow> string \<Rightarrow> string \<Rightarrow> string \<Rightarrow> pyval
     \<Rightarrow> report \<times> 'w" where
  "add_watermark env w input_path output_path txt options =
     (case watermark_prepare env w input_path txt options of
        Inl e \<Rightarrow> (failure e, w)
      | Inr (out, n, position) \<Rightarrow>
          (case write_pdf env output_path out w of
             (Some e, w') \<Rightarrow> (failure e, w')
           | (None, w') \<Rightarrow>
               ([(''success'', PBool True), (''pages'', PInt (int n)),
                 (''watermark'', PStr txt), (''position'', position)], w')))"

subsection \<open>main\<close>

text \<open>
  After the report of \<open>compress_pdf\<close> or \<open>add_watermark\<close> is printed, \<open>main\<close> returns
  and the process ends with exit code 0; \<open>sys.exit(1)\<close> is called on the usage errors,
  on an unknown operation and in the handler of an exception (of \<open>json.loads\<close>).
\<close>

definition pdf_main ::
    "('w, 'pdf, 'page, 'canvas) pdf_env \<Rightarrow> 'w \<Rightarrow> string list \<Rightarrow> 'w outcome" where
  "pdf_main env w argv =
     (if length argv < 2 then
        \<lparr>stdout = [[(''success'', PBool False),
                     (''error'', PStr ''No operation specified''),
                     (''usage'', PStr ''python pdf_helper.py <operation> <args...>''),
                     (''operations'', PList [PStr ''compress'', PStr ''watermark''])]],
         exit_code = 1, world = w\<rparr>
      else
        (let operation = argv ! 1 in
         if operation = ''compress'' then
           (if length argv < 5 then
              \<lparr>stdout = [[(''success'', PBool False),
                           (''error'', PStr ''Usage: compress <input> <output> <level>''),
                           (''levels'', PList [PStr ''low'', PStr ''medium'', PStr ''high'',
                              PStr ''extreme''])]],
               exit_code = 1, world = w\<rparr>
            else
              (case compress_pdf env w (argv ! 2) (argv ! 3) (argv ! 4) of
                 (result, w') \<Rightarrow> \<lparr>stdout = [result], exit_code = 0, world = w'\<rparr>))
         else if operation = ''watermark'' then
           (if length argv < 5 then
              \<lparr>stdout = [[(''success'', PBool False),
                           (''error'',
                              PStr ''Usage: watermark <input> <output> <text> [options_json]'')]],
               exit_code = 1, world = w\<rparr>
            else
              (case (if length argv > 5 then json_loads env (argv ! 5) else Inr (PDict [])) of
                 Inl e \<Rightarrow> \<lparr>stdout = [failure e], exit_code = 1, world = w\<rparr>
               | Inr options \<Rightarrow>
                   (case add_watermark env w (argv ! 2) (argv ! 3) (argv ! 4) options of
                      (result, w') \<Rightarrow> \<lparr>stdout = [result], exit_code = 0, world = w'\<rparr>)))
         else
           \<lparr>stdout = [[(''success'', PBool False),
                        (''error'', PStr (''Unknown operation: '' @ operation)),
                        (''operations'', PList [PStr ''compress'', PStr ''watermark''])]],
            exit_code = 1, world = w\<rparr>))"

definition pdf_script ::
    "exn option \<Rightarrow> ('w, 'pdf, 'page, 'canvas) pdf_env \<Rightarrow> 'w \<Rightarrow> string list \<Rightarrow> 'w outcome" where
  "pdf_script import_error env w argv =
     (case import_error of
        Some e \<Rightarrow>
          \<lparr>stdout = [[(''success'', PBool False),
                       (''error'', PStr (''Missing required library: '' @ str_exn e)),
                       (''install_command'', PStr ''pip install pikepdf reportlab pypdf pillow'')]],
           exit_code = 1, world = w\<rparr>
      | None \<Rightarrow> pdf_main env w argv)"

subsection \<open>Where the calls on a canvas put the text\<close>

text \<open>
  The graphics state of a canvas is its current transformation matrix \<open>(a, b, c, d, e, f)\<close>,
  which sends the user point \<open>(x, y)\<close> to the page point \<open>(a x + c y + e, b x + d y + f)\<close>;
  it starts as the identity, with the origin in the lower left corner of the page.
  \<open>translate\<close> and \<open>rotate\<close> (degrees, counterclockwise) change the user space,
  \<open>saveState\<close> and \<open>restoreState\<close> push and pop the matrix, and
  \<open>drawCentredString(x, y, text)\<close> draws the text on the baseline through \<open>(x, y)\<close>, from
  half its width left of \<open>x\<close> to half its width right of it. \<open>deg\<close> reads the angle
  argument as a number and \<open>width\<close> is the width of a string in the current font.
\<close>

type_synonym ctm = "real \<times> real \<times> real \<times> real \<times> real \<times> real"

definition ctm_identity :: ctm where
  "ctm_identity = (1, 0, 0, 1, 0, 0)"

fun ctm_apply :: "ctm \<Rightarrow> real \<times> real \<Rightarrow> real \<times> real" where
  "ctm_apply (a, b, c, d, e, f) (x, y) = (a * x + c * y + e, b * x + d * y + f)"

fun ctm_translate :: "ctm \<Rightarrow> real \<Rightarrow> real \<Rightarrow> ctm" where
  "ctm_translate (a, b, c, d, e, f) dx dy = (a, b, c, d, a * dx + c * dy + e, b * dx + d * dy + f)"

fun ctm_rotate :: "ctm \<Rightarrow> real \<Rightarrow> ctm" where
  "ctm_rotate (a, b, c, d, e, f) theta =
     (let co = cos (theta * pi / 180); si = sin (theta * pi / 180)
      in (a * co + c * si, b * co + d * si, c * co - a * si, d * co - b * si, e, f))"

text \<open>
  For every string drawn: the string, the page points where its baseline starts and
  ends, and the page point of the origin of the user space it is drawn in.
\<close>

fun drawn_strings ::
    "(pyval \<Rightarrow> real) \<Rightarrow> (string \<Rightarrow> real) \<Rightarrow> ctm \<Rightarrow> ctm list \<Rightarrow> canvas_op list
     \<Rightarrow> (string \<times> (real \<times> real) \<times> (real \<times> real) \<times> (real \<times> real)) list" where
  "drawn_strings deg width m st [] = []"
| "drawn_strings deg width m st (SaveState # cs) = drawn_strings deg width m (m # st) cs"
| "drawn_strings deg width m st (RestoreState # cs) =
     (case st of [] \<Rightarrow> drawn_strings deg width m [] cs
      | m' # st' \<Rightarrow> drawn_strings deg width m' st' cs)"
| "drawn_strings deg width m st (Translate dx dy # cs) =
     drawn_strings deg width (ctm_translate m (of_rat dx) (of_rat dy)) st cs"
| "drawn_strings deg width m st (Rotate v # cs) =
     drawn_strings deg width (ctm_rotate m (deg v)) st cs"
| "drawn_strings deg width m st (DrawCentredString x y s # cs) =
     (s, ctm_apply m (of_rat x - width s / 2, of_rat y),
         ctm_apply m (of_rat x + width s / 2, of_rat y),
         ctm_apply m (0, 0))
     # drawn_strings deg width m st cs"
| "drawn_strings deg width m st (c # cs) = drawn_strings deg width m st cs"

definition midpoint2 :: "real \<times> real \<Rightarrow> real \<times> real \<Rightarrow> real \<times> real" where
  "midpoint2 p q = ((fst p + fst q) / 2, (snd p + snd q) / 2)"

text \<open>
  The glyphs of a string stand on its baseline: in the user space the box around them
  is as wide as the string and reaches from \<open>descent\<close> below the baseline to \<open>ascent\<close>
  above it (the font's metrics at the size set, data of the library). For every string
  drawn: the string and the page points of the lower left and of the upper right
  corner of its box. The matrix is affine, so the box is drawn as a parallelogram, and
  the centre of the drawn text is the middle of these two opposite corners.
\<close>

fun drawn_boxes ::
    "(pyval \<Rightarrow> real) \<Rightarrow> (string \<Rightarrow> real) \<Rightarrow> real \<Rightarrow> real \<Rightarrow> ctm \<Rightarrow> ctm list \<Rightarrow> canvas_op list
     \<Rightarrow> (string \<times> (real \<times> real) \<times> (real \<times> real)) list" where
  "drawn_boxes deg width ascent descent m st [] = []"
| "drawn_boxes deg width ascent descent m st (SaveState # cs) =
     drawn_boxes deg width ascent descent m (m # st) cs"
| "drawn_boxes deg width ascent descent m st (RestoreState # cs) =
     (case st of [] \<Rightarrow> drawn_boxes deg width ascent descent m [] cs
      | m' # st' \<Rightarrow> drawn_boxes deg width ascent descent m' st' cs)"
| "drawn_boxes deg width ascent descent m st (Translate dx dy # cs) =
     drawn_boxes deg width ascent descent (ctm_translate m (of_rat dx) (of_rat dy)) st cs"
| "drawn_boxes deg width ascent descent m st (Rotate v # cs) =
     drawn_boxes deg width ascent descent (ctm_rotate m (deg v)) st cs"
| "drawn_boxes deg width ascent descent m st (DrawCentredString x y s # cs) =
     (s, ctm_apply m (of_rat x - width s / 2, of_rat y - descent),
         ctm_apply m (of_rat x + width s / 2, of_rat y + ascent))
     # drawn_boxes deg width ascent descent m st cs"
| "drawn_boxes deg width ascent descent m st (c # cs) =
     drawn_boxes deg width ascent descent m st cs"

definition box_centres ::
    "(pyval \<Rightarrow> real) \<Rightarrow> (string \<Rightarrow> real) \<Rightarrow> real \<Rightarrow> real \<Rightarrow> canvas_op list
     \<Rightarrow> (string \<times> (real \<times> real)) list" where
  "box_centres deg width ascent descent cs =
     map (\<lambda>(s, ll, ur). (s, midpoint2 ll ur))
       (drawn_boxes deg width ascent descent ctm_identity [] cs)"

text \<open>
  The number that a Python number stands for; the canvas computes an angle from it. A
  value that is no number makes the library raise, which is an outcome of
  \<open>canvas_call\<close>; it is read as \<open>0\<close> here.
\<close>

fun number :: "pyval \<Rightarrow> real" where
  "number (PInt i) = of_int i"
| "number (PFloat q) = of_rat q"
| "number (PBool b) = of_bool b"
| "number v = 0"

section \<open>Reading a formatted number back\<close>

text \<open>
  What a reader of the report sees in a string such as \<open>-12.50\<close>: whether it is a
  decimal with exactly two digits after the point, and the number it denotes.
\<close>

definition is_digit :: "char \<Rightarrow> bool" where
  "is_digit c = (48 \<le> (of_char c :: nat) \<and> (of_char c :: nat) \<le> 57)"

definition nat_of_digits :: "string \<Rightarrow> nat" where
  "nat_of_digits s = foldl (\<lambda>n c. 10 * n + (of_char c - 48)) 0 s"

definition two_decimals :: "string \<Rightarrow> bool" where
  "two_decimals s =
     (let body = (if s \<noteq> [] \<and> hd s = CHR ''-'' then tl s else s);
          ip = takeWhile is_digit body;
          rest = dropWhile is_digit body
      in ip \<noteq> [] \<and> length rest = 3 \<and> hd rest = CHR ''.''
         \<and> is_digit (rest ! 1) \<and> is_digit (rest ! 2))"

definition decimal_value :: "string \<Rightarrow> rat" where
  "decimal_value s =
     (let neg = (s \<noteq> [] \<and> hd s = CHR ''-'');
          body = (if neg then tl s else s);
          ip = takeWhile is_digit body;
          fp = drop 1 (dropWhile is_digit body);
          v = of_nat (nat_of_digits ip) + of_nat (nat_of_digits fp) / 10 ^ length fp
      in if neg then - v else v)"

section \<open>Marked-up strings as token lists\<close>

text \<open>
  To reason about the stripping of markup, a marked-up string is seen as the rendering of
  a list of tokens: pieces of text without \<open><\<close>, and markers.
\<close>

datatype tok = Lit string | Tag string

fun render :: "tok list \<Rightarrow> string" where
  "render [] = []"
| "render (Lit s # ts) = s @ render ts"
| "render (Tag m # ts) = m @ render ts"

definition markers :: "string set" where
  "markers = {''<b>'', ''</b>'', ''<i>'', ''</i>'', ''<u>'', ''</u>''}"

fun wf_tok :: "tok \<Rightarrow> bool" where
  "wf_tok (Lit s) = (CHR ''<'' \<notin> set s)"
| "wf_tok (Tag m) = (m \<in> markers)"

fun is_Lit :: "tok \<Rightarrow> bool" where
  "is_Lit (Lit s) = True"
| "is_Lit (Tag m) = False"

definition run_toks :: "run \<Rightarrow> tok list" where
  "run_toks r =
     (if truthy (underline r) then [Tag ''<u>''] else [])
     @ (if truthy (italic r) then [Tag ''<i>''] else [])
     @ (if truthy (bold r) then [Tag ''<b>''] else [])
     @ [Lit (run_text r)]
     @ (if truthy (bold r) then [Tag ''</b>''] else [])
     @ (if truthy (italic r) then [Tag ''</i>''] else [])
     @ (if truthy (underline r) then [Tag ''</u>''] else [])"

section \<open>Sample environments\<close>

text \<open>
  A small file system and libraries on which the theorems are instantiated: a file is
  its size and its pages, a page is its size and the canvas calls merged onto it.
\<close>

type_synonym demo_page = "(rat \<times> rat) \<times> canvas_op list"

type_synonym demo_world = "(string \<times> nat \<times> demo_page list) list"

definition demo_getsize :: "demo_world \<Rightarrow> string \<Rightarrow> exn + nat" where
  "demo_getsize w p =
     (case map_of w p of
        None \<Rightarrow> Inl (LibraryError (''No such file or directory: '' @ p))
      | Some (n, pages) \<Rightarrow> Inr n)"

text \<open>
  Saving with flate recompression halves the file; without it the file grows by 64
  bytes.
\<close>

definition demo_pdf_env :: "(demo_world, nat \<times> demo_page list, demo_page, canvas_op list) pdf_env" where
  "demo_pdf_env =
     \<lparr>Pdf_open = (\<lambda>w p. case map_of w p of
          None \<Rightarrow> Inl (LibraryError (''No such file or directory: '' @ p))
        | Some f \<Rightarrow> Inr f),
      Pdf_save = (\<lambda>pdf p options w.
          (None, (p, if map_of options ''recompress_flate'' = Some (PBool True)
                     then fst pdf div 2 else fst pdf + 64, snd pdf) # w)),
      os_path_getsize = demo_getsize,
      PdfReader = (\<lambda>w p. case map_of w p of
          None \<Rightarrow> Inl (LibraryError (''No such file or directory: '' @ p))
        | Some (n, pages) \<Rightarrow> Inr pages),
      mediabox = (\<lambda>page. Inr (fst page)),
      Canvas = (\<lambda>size. Inr []),
      canvas_call = (\<lambda>can c. Inr (can @ [c])),
      overlay_page = (\<lambda>can. Inr ((0, 0), can)),
      merge_page = (\<lambda>page overlay. Inr (fst page, snd page @ snd overlay)),
      write_pdf = (\<lambda>p pages w. (None, (p, 1000 * length pages, pages) # w)),
      json_loads = (\<lambda>s. if s = ''{}'' then Inr (PDict [])
          else if s = ''null'' then Inr PNone
          else Inl (LibraryError ''Expecting value: line 1 column 1 (char 0)''))\<rparr>"

definition demo_world :: demo_world where
  "demo_world =
     [(''in.pdf'', 100, [((612, 792), []), ((595, 842), [])]), (''empty.pdf'', 40, []),
      (''zero.pdf'', 0, [])]"

text \<open>
  For the converter a file is its size; the sample \<open>Paragraph\<close> refuses every text with
  a \<open><\<close> in it, as a parser that knows no tag would.
\<close>

definition demo_document :: document where
  "demo_document =
     \<lparr>paragraphs =
        [\<lparr>runs = [\<lparr>run_text = ''Report'', bold = Some True, italic = None, underline = None\<rparr>],
          style_name = Some ''Heading 1'', alignment = Some CENTER\<rparr>,
         \<lparr>runs = [], style_name = Some ''Normal'', alignment = None\<rparr>,
         \<lparr>runs = [\<lparr>run_text = ''plain '', bold = None, italic = None, underline = None\<rparr>,
                  \<lparr>run_text = ''text'', bold = None, italic = Some True, underline = Some True\<rparr>],
          style_name = Some ''Normal'', alignment = None\<rparr>],
      tables = [[['' a '', ''b'']], []]\<rparr>"

text \<open>A document of one paragraph, whose text has angle brackets of its own.\<close>

definition marker_document :: document where
  "marker_document =
     \<lparr>paragraphs =
        [\<lparr>runs = [\<lparr>run_text = ''<<i>b>'', bold = None, italic = None, underline = None\<rparr>],
          style_name = Some ''Normal'', alignment = None\<rparr>],
      tables = []\<rparr>"

definition demo_docx_env :: "(string \<times> nat) list docx_env" where
  "demo_docx_env =
     \<lparr>path_exists = (\<lambda>w p. map_of w p \<noteq> None),
      Document = (\<lambda>w p. if map_of w p = None
          then Inl (LibraryError (''Package not found at '' @ p)) else Inr demo_document),
      Paragraph = (\<lambda>t style. if CHR ''<'' \<in> set t
          then Some (LibraryError ''paraparser: syntax error'') else None),
      Table = (\<lambda>rows. None),
      build = (\<lambda>tmpl story w. (None, (filename tmpl, 500 + length story) # w)),
      getsize = (\<lambda>w p. case map_of w p of
          None \<Rightarrow> Inl (LibraryError (''No such file or directory: '' @ p))
        | Some n \<Rightarrow> Inr n)\<rparr>"

section \<open>Properties of the float operations and of the formatting\<close>

text \<open>Rounding to the nearest integer moves a number by at most one half.\<close>

lemma round_half_even_error: "\<bar>of_int (round_half_even x) - x\<bar> \<le> 1 / 2"
proof -
  have "of_int \<lfloor>x\<rfloor> \<le> x" "x < of_int \<lfloor>x\<rfloor> + 1"
    by linarith+
  then show ?thesis
    by (auto simp: round_half_even_def Let_def)
qed

lemma round_half_even_nonneg: "0 \<le> x \<Longrightarrow> 0 \<le> round_half_even x"
  using round_half_even_error [of x] by linarith

lemma quotient_of_abs_pos:
  assumes "x \<noteq> 0" and "quotient_of \<bar>x\<bar> = (a, b)"
  shows "0 < a" "0 < b" "\<bar>x\<bar> = of_int a / of_int b"
proof -
  show b: "0 < b" using assms(2) by (rule quotient_of_denom_pos)
  show eq: "\<bar>x\<bar> = of_int a / of_int b" using assms(2) by (rule quotient_of_div)
  have "0 < \<bar>x\<bar>" using assms(1) by simp
  with eq b show "0 < a"
    by (simp add: zero_less_divide_iff)
qed

text \<open>\<open>exponent x\<close> is the binary exponent of \<open>x\<close>: \<open>2\<^sup>e \<le> \<bar>x\<bar> < 2\<^sup>e\<^sup>+\<^sup>1\<close>.\<close>

lemma exponent_lower:
  assumes "x \<noteq> 0"
  shows "2 powi exponent x \<le> \<bar>x\<bar>"
proof -
  obtain a b where q: "quotient_of \<bar>x\<bar> = (a, b)" by (cases "quotient_of \<bar>x\<bar>")
  note ab = quotient_of_abs_pos [OF assms q]
  let ?e = "bitlen a - bitlen b"
  have la: "1 \<le> bitlen a" using ab(1) by (simp add: bitlen_alt_def)
  have lb: "0 \<le> bitlen b" by (rule bitlen_nonneg)
  have "(2::rat) powi (?e - 1) \<le> \<bar>x\<bar>"
  proof -
    have a: "(2::rat) ^ nat (bitlen a - 1) \<le> of_int a"
      using bitlen_bounds [OF ab(1)]
      by (metis of_int_le_iff of_int_numeral of_int_power)
    have b: "of_int b \<le> (2::rat) ^ nat (bitlen b)"
      using bitlen_bounds [OF ab(2)]
      by (metis less_imp_le of_int_le_iff of_int_numeral of_int_power)
    have "(2::rat) powi (?e - 1) = 2 ^ nat (bitlen a - 1) / 2 ^ nat (bitlen b)"
    proof -
      from la lb obtain m n where mn: "bitlen a = int m + 1" "bitlen b = int n"
        by (metis add.commute nonneg_int_cases zle_iff_zadd)
      have "(2::rat) powi (int m - int n) = 2 ^ m / 2 ^ n"
        by (simp add: power_int_diff)
      then show ?thesis by (simp add: mn)
    qed
    also have "\<dots> \<le> of_int a / of_int b"
      using a b ab(1,2) by (intro frac_le) simp_all
    finally show ?thesis using ab(3) by simp
  qed
  then show ?thesis
    using q by (simp add: exponent_def Let_def)
qed

lemma exponent_upper:
  assumes "x \<noteq> 0"
  shows "\<bar>x\<bar> < 2 powi (exponent x + 1)"
proof -
  obtain a b where q: "quotient_of \<bar>x\<bar> = (a, b)" by (cases "quotient_of \<bar>x\<bar>")
  note ab = quotient_of_abs_pos [OF assms q]
  let ?e = "bitlen a - bitlen b"
  have la: "1 \<le> bitlen a" using ab(1) by (simp add: bitlen_alt_def)
  have lb: "1 \<le> bitlen b" using ab(2) by (simp add: bitlen_alt_def)
  have "\<bar>x\<bar> < (2::rat) powi (?e + 1)"
  proof -
    have a: "of_int a < (2::rat) ^ nat (bitlen a)"
      using bitlen_bounds [OF ab(1)]
      by (metis of_int_less_iff of_int_numeral of_int_power)
    have b: "(2::rat) ^ nat (bitlen b - 1) \<le> of_int b"
      using bitlen_bounds [OF ab(2)]
      by (metis of_int_le_iff of_int_numeral of_int_power)
    have "of_int a / of_int b < (2::rat) ^ nat (bitlen a) / 2 ^ nat (bitlen b - 1)"
      using a b ab(1,2) by (intro frac_less) simp_all
    also have "\<dots> = (2::rat) powi (?e + 1)"
    proof -
      from la lb obtain m n where mn: "bitlen a = int m + 1" "bitlen b = int n + 1"
        by (metis add.commute zle_iff_zadd)
      have n: "nat (bitlen a) = Suc m" "nat (bitlen b - 1) = n"
        "bitlen a - bitlen b + 1 = int (Suc m) - int n"
        using mn by simp_all
      have "(2::rat) powi (int (Suc m) - int n) = 2 ^ Suc m / 2 ^ n"
        by (subst power_int_diff) (simp_all del: power_Suc of_nat_Suc)
      then show ?thesis unfolding n by simp
    qed
    finally show ?thesis using ab(3) by simp
  qed
  then show ?thesis
    using q by (auto simp: exponent_def Let_def)
qed

text \<open>
  The relative error of one rounding is at most \<open>2\<^sup>-\<^sup>5\<^sup>3\<close>, and a rounding keeps the
  sign.
\<close>

lemma fl_error:
  "\<bar>fl x - x\<bar> \<le> \<bar>x\<bar> / 2 ^ 53"
proof (cases "x = 0")
  case True
  then show ?thesis by (simp add: fl_def)
next
  case False
  define u :: rat where "u = 2 powi (exponent x - 52)"
  have u: "0 < u" by (simp add: u_def power_int_def)
  have "fl x - x = (of_int (round_half_even (x / u)) - x / u) * u"
    using False u by (simp add: fl_def Let_def u_def [symmetric] algebra_simps)
  then have "\<bar>fl x - x\<bar> = \<bar>of_int (round_half_even (x / u)) - x / u\<bar> * u"
    using u by (simp add: abs_mult)
  also have "\<dots> \<le> 1 / 2 * u"
    using round_half_even_error [of "x / u"] u by (intro mult_right_mono) simp_all
  also have "\<dots> = 2 powi exponent x / 2 ^ 53"
    by (simp add: u_def power_int_diff)
  also have "\<dots> \<le> \<bar>x\<bar> / 2 ^ 53"
    using exponent_lower [OF False] by (simp add: divide_right_mono)
  finally show ?thesis .
qed

lemma fl_pos: "0 < x \<Longrightarrow> 0 < fl x"
proof -
  assume x: "0 < x"
  have "\<bar>x\<bar> / 2 ^ 53 < \<bar>x\<bar>" using x by simp
  with fl_error [of x] x show ?thesis by linarith
qed

lemma fl_neg: "x < 0 \<Longrightarrow> fl x < 0"
proof -
  assume x: "x < 0"
  have "\<bar>x\<bar> / 2 ^ 53 < \<bar>x\<bar>" using x by simp
  with fl_error [of x] x show ?thesis by linarith
qed

lemma fl_zero: "fl 0 = 0"
  by (simp add: fl_def)


text \<open>The string of a natural number consists of digits and reads back as the number.\<close>

lemma of_char_digit: "d < 10 \<Longrightarrow> (of_char (digit d) :: nat) = 48 + d"
  by (simp add: digit_def)

lemma is_digit_digit: "d < 10 \<Longrightarrow> is_digit (digit d)"
  by (simp add: is_digit_def of_char_digit)

lemma not_digit_point: "\<not> is_digit CHR ''.''" "\<not> is_digit CHR ''-''"
  by (simp_all add: is_digit_def)

lemma str_nat_digits: "list_all is_digit (str_nat n)"
proof (induction n rule: str_nat.induct)
  case (1 n)
  show ?case
  proof (cases "n < 10")
    case True
    then show ?thesis by (subst str_nat.simps) (simp add: is_digit_digit)
  next
    case False
    with 1 show ?thesis by (subst str_nat.simps) (simp add: is_digit_digit)
  qed
qed

lemma str_nat_nonempty: "str_nat n \<noteq> []"
  by (subst str_nat.simps) simp

lemma nat_of_digits_snoc:
  "nat_of_digits (s @ [c]) = 10 * nat_of_digits s + (of_char c - 48)"
  by (simp add: nat_of_digits_def)

lemma nat_of_digits_str_nat: "nat_of_digits (str_nat n) = n"
proof (induction n rule: str_nat.induct)
  case (1 n)
  show ?case
  proof (cases "n < 10")
    case True
    then show ?thesis
      by (subst str_nat.simps) (simp add: nat_of_digits_def of_char_digit)
  next
    case False
    with 1 show ?thesis
      by (subst str_nat.simps) (simp add: nat_of_digits_snoc of_char_digit)
  qed
qed

lemma hd_str_nat: "is_digit (hd (str_nat n))"
  using str_nat_digits [of n] str_nat_nonempty [of n]
  by (cases "str_nat n") simp_all

lemma take_digits:
  "list_all is_digit ds \<Longrightarrow> takeWhile is_digit (ds @ CHR ''.'' # r) = ds"
  "list_all is_digit ds \<Longrightarrow> dropWhile is_digit (ds @ CHR ''.'' # r) = CHR ''.'' # r"
  by (induction ds) (simp_all add: not_digit_point)

text \<open>
  The formatted float: a sign when the float is negative, the digits of the integer
  part, the point and two digits. It reads back as a number at most 0.005 away from the
  float.
\<close>

lemma format_2f_shape:
  "format_2f x =
     (if x < 0 then ''-'' else []) @ str_nat (nat (round_half_even (\<bar>x\<bar> * 100)) div 100)
     @ CHR ''.'' # [digit (nat (round_half_even (\<bar>x\<bar> * 100)) mod 100 div 10),
                    digit (nat (round_half_even (\<bar>x\<bar> * 100)) mod 10)]"
  by (simp add: format_2f_def Let_def)

lemma signed_body:
  fixes n :: nat and neg :: bool
  defines "body \<equiv> str_nat (n div 100) @ CHR ''.'' # [digit (n mod 100 div 10), digit (n mod 10)]"
  defines "s \<equiv> (if neg then ''-'' else []) @ body"
  shows "(s \<noteq> [] \<and> hd s = CHR ''-'') = neg"
    and "(if s \<noteq> [] \<and> hd s = CHR ''-'' then tl s else s) = body"
proof -
  have "body \<noteq> []" "is_digit (hd body)"
    using hd_str_nat [of "n div 100"] str_nat_nonempty [of "n div 100"]
    by (simp_all add: body_def hd_append)
  then have "hd body \<noteq> CHR ''-''"
    using not_digit_point(2) by auto
  then show n: "(s \<noteq> [] \<and> hd s = CHR ''-'') = neg"
    using \<open>body \<noteq> []\<close> by (simp add: s_def)
  show "(if s \<noteq> [] \<and> hd s = CHR ''-'' then tl s else s) = body"
    unfolding n by (simp add: s_def)
qed

lemma two_decimals_shape:
  "two_decimals ((if neg then ''-'' else []) @ str_nat (n div 100)
     @ CHR ''.'' # [digit (n mod 100 div 10), digit (n mod 10)])"
  unfolding two_decimals_def signed_body Let_def
  by (simp add: take_digits str_nat_digits str_nat_nonempty is_digit_digit)

lemma decimal_value_shape:
  "decimal_value ((if neg then ''-'' else []) @ str_nat (n div 100)
     @ CHR ''.'' # [digit (n mod 100 div 10), digit (n mod 10)]) =
   (if neg then - 1 else 1) * of_nat n / 100"
proof -
  have ar: "10 * (k mod 100 div 10) + k mod 10 = k mod 100" for k :: nat
  proof -
    have "k mod 100 mod 10 = k mod 10" by (simp add: mod_mod_cancel)
    moreover have "10 * (k mod 100 div 10) + k mod 100 mod 10 = k mod 100" by simp
    ultimately show ?thesis by simp
  qed
  have fp: "nat_of_digits [digit (n mod 100 div 10), digit (n mod 10)] = n mod 100"
    by (simp add: nat_of_digits_def of_char_digit ar)
  have sum: "(of_nat (n div 100) :: rat) + of_nat (n mod 100) / 100 = of_nat n / 100"
  proof -
    have "n = 100 * (n div 100) + n mod 100" by simp
    then have "(of_nat n :: rat) = 100 * of_nat (n div 100) + of_nat (n mod 100)"
      by (metis of_nat_add of_nat_mult of_nat_numeral)
    then show ?thesis by simp
  qed
  have "decimal_value ((if neg then ''-'' else []) @ str_nat (n div 100)
     @ CHR ''.'' # [digit (n mod 100 div 10), digit (n mod 10)]) =
     (if neg then - (of_nat (n div 100) + of_nat (n mod 100) / 100)
      else of_nat (n div 100) + of_nat (n mod 100) / 100)"
    unfolding decimal_value_def signed_body Let_def
    by (simp add: take_digits str_nat_digits nat_of_digits_str_nat fp)
  then show ?thesis unfolding sum by simp
qed

lemma hd_format_2f: "(hd (format_2f x) = CHR ''-'') = (x < 0)"
  using signed_body(1) [of "x < 0" "nat (round_half_even (\<bar>x\<bar> * 100))"]
  by (simp add: format_2f_shape)

lemma two_decimals_format_2f: "two_decimals (format_2f x)"
  unfolding format_2f_shape by (rule two_decimals_shape)

lemma decimal_value_format_2f:
  "decimal_value (format_2f x) =
     (if x < 0 then - 1 else 1) * of_nat (nat (round_half_even (\<bar>x\<bar> * 100))) / 100"
  unfolding format_2f_shape by (rule decimal_value_shape)

lemma decimal_value_format_2f_error: "\<bar>decimal_value (format_2f x) - x\<bar> \<le> 1 / 200"
proof -
  define r :: rat where "r = of_int (round_half_even (\<bar>x\<bar> * 100))"
  have "0 \<le> round_half_even (\<bar>x\<bar> * 100)"
    by (rule round_half_even_nonneg) simp
  then have n: "(of_nat (nat (round_half_even (\<bar>x\<bar> * 100))) :: rat) = r"
    by (simp add: r_def)
  have "\<bar>r - \<bar>x\<bar> * 100\<bar> \<le> 1 / 2"
    unfolding r_def by (rule round_half_even_error)
  then have e: "r - \<bar>x\<bar> * 100 \<le> 1 / 2" "\<bar>x\<bar> * 100 - r \<le> 1 / 2"
    by linarith+
  show ?thesis
  proof (cases "x < 0")
    case True
    with e have "- r / 100 - x \<le> 1 / 200" "x + r / 100 \<le> 1 / 200"
      by linarith+
    then have "\<bar>- r / 100 - x\<bar> \<le> 1 / 200" by linarith
    with True show ?thesis
      unfolding decimal_value_format_2f n by simp
  next
    case False
    with e have "r / 100 - x \<le> 1 / 200" "x - r / 100 \<le> 1 / 200"
      by linarith+
    then have "\<bar>r / 100 - x\<bar> \<le> 1 / 200" by linarith
    with False show ?thesis
      unfolding decimal_value_format_2f n by simp
  qed
qed

lemma digit_0: "digit 0 = CHR ''0''"
  by code_simp

lemma str_nat_0: "str_nat 0 = ''0''"
  by (subst str_nat.simps) (simp add: digit_0)

lemma format_2f_zero: "format_2f 0 = ''0.00''"
  by (simp add: format_2f_def round_half_even_def digit_0 str_nat_0)

lemma round_half_even_unique:
  assumes "\<bar>of_int k - y\<bar> < 1 / 2"
  shows "round_half_even y = k"
proof -
  have "\<bar>(of_int (round_half_even y - k) :: rat)\<bar> < 1"
    using assms round_half_even_error [of y] unfolding of_int_diff by arith
  then have "\<bar>round_half_even y - k\<bar> < 1"
    by (metis of_int_abs of_int_less_1_iff)
  then show ?thesis by simp
qed

lemma format_2f_eq:
  assumes "\<bar>of_nat n - \<bar>x\<bar> * 100\<bar> < 1 / 2"
  shows "format_2f x =
     (if x < 0 then ''-'' else []) @ str_nat (n div 100)
     @ CHR ''.'' # [digit (n mod 100 div 10), digit (n mod 10)]"
proof -
  have "round_half_even (\<bar>x\<bar> * 100) = int n"
    using assms by (intro round_half_even_unique) simp
  then show ?thesis by (simp add: format_2f_shape)
qed

text \<open>
  The ratio of \<open>compress_pdf\<close>: two roundings away from the exact ratio, and of the
  sign of the bytes saved.
\<close>

lemma compression_ratio_zero: "compression_ratio 0 n = 0"
  by (simp add: compression_ratio_def)

lemma compression_ratio_error:
  assumes "0 < i"
  shows "\<bar>compression_ratio i n - of_int (int i - int n) / of_nat i * 100\<bar>
           \<le> \<bar>of_int (int i - int n) / of_nat i * 100\<bar> / 2 ^ 51"
proof -
  define q :: rat where "q = of_int (int i - int n) / of_nat i"
  define t where "t = fl q"
  define x where "x = fl (t * 100)"
  have x: "compression_ratio i n = x"
    using assms by (simp add: compression_ratio_def truediv_def float_mul_def x_def t_def q_def)
  have 1: "\<bar>t - q\<bar> \<le> \<bar>q\<bar> / 2 ^ 53"
    unfolding t_def by (rule fl_error)
  have "\<bar>x - t * 100\<bar> \<le> \<bar>t * 100\<bar> / 2 ^ 53"
    unfolding x_def by (rule fl_error)
  then have 2: "\<bar>x - t * 100\<bar> \<le> \<bar>t\<bar> * 100 / 2 ^ 53"
    by (simp add: abs_mult)
  have p: "(2::rat) ^ 53 = 9007199254740992" "(2::rat) ^ 51 = 2251799813685248"
    by simp_all
  have 3: "\<bar>t\<bar> \<le> 2 * \<bar>q\<bar>"
    using 1 unfolding p by arith
  have "\<bar>x - q * 100\<bar> \<le> \<bar>q\<bar> * 100 / 2 ^ 51"
    using 1 2 3 unfolding p by arith
  then show ?thesis
    unfolding x q_def [symmetric] by (simp add: abs_mult)
qed

lemma compression_ratio_sign:
  assumes "0 < i"
  shows "n < i \<Longrightarrow> 0 < compression_ratio i n"
    and "n = i \<Longrightarrow> compression_ratio i n = 0"
    and "i < n \<Longrightarrow> compression_ratio i n < 0"
proof -
  have x: "compression_ratio i n = fl (fl (of_int (int i - int n) / of_nat i) * 100)"
    using assms by (simp add: compression_ratio_def truediv_def float_mul_def)
  show "0 < compression_ratio i n" if "n < i"
  proof -
    have "0 < (of_int (int i - int n) / of_nat i :: rat)"
      using that assms by simp
    then have "0 < fl (of_int (int i - int n) / of_nat i) * 100"
      using fl_pos by simp
    then show ?thesis unfolding x by (rule fl_pos)
  qed
  show "compression_ratio i n = 0" if "n = i"
    using that assms by (simp add: compression_ratio_def truediv_def float_mul_def fl_zero)
  show "compression_ratio i n < 0" if "i < n"
  proof -
    have "(of_int (int i - int n) / of_nat i :: rat) < 0"
      using that assms by (simp add: divide_neg_pos)
    then have "fl (of_int (int i - int n) / of_nat i) * 100 < 0"
      using fl_neg by (simp add: mult_neg_pos)
    then show ?thesis unfolding x by (rule fl_neg)
  qed
qed

lemma str_nat_64: "str_nat 64 = ''64''" and str_nat_50: "str_nat 50 = ''50''"
  by code_simp+

lemma demo_ratio_low: "format_2f (compression_ratio 100 164) = ''-64.00''"
proof -
  have p: "(2::rat) ^ 51 = 2251799813685248"
    by simp
  have e: "\<bar>compression_ratio 100 164 - (- 64)\<bar> \<le> 64 / 2 ^ 51"
    using compression_ratio_error [of 100 164] by simp
  have neg: "compression_ratio 100 164 < 0"
    by (rule compression_ratio_sign(3)) simp_all
  have "\<bar>6400 - \<bar>compression_ratio 100 164\<bar> * 100\<bar> < 1 / 2"
    using e neg unfolding p by arith
  then have "\<bar>of_nat 6400 - \<bar>compression_ratio 100 164\<bar> * 100\<bar> < 1 / 2"
    by simp
  from format_2f_eq [OF this] neg show ?thesis
    by (simp add: str_nat_64 digit_0)
qed

lemma demo_ratio_medium: "format_2f (compression_ratio 100 50) = ''50.00''"
proof -
  have p: "(2::rat) ^ 51 = 2251799813685248"
    by simp
  have e: "\<bar>compression_ratio 100 50 - 50\<bar> \<le> 50 / 2 ^ 51"
    using compression_ratio_error [of 100 50] by simp
  have pos: "0 < compression_ratio 100 50"
    by (rule compression_ratio_sign(1)) simp_all
  have "\<bar>5000 - \<bar>compression_ratio 100 50\<bar> * 100\<bar> < 1 / 2"
    using e pos unfolding p by arith
  then have "\<bar>of_nat 5000 - \<bar>compression_ratio 100 50\<bar> * 100\<bar> < 1 / 2"
    by simp
  from format_2f_eq [OF this] pos show ?thesis
    by (simp add: str_nat_50 digit_0)
qed


text \<open>
  A number with a significand of at most 53 bits is a double, and \<open>fl\<close> leaves it as it
  is.
\<close>

lemma round_half_even_of_int: "round_half_even (of_int k) = k"
  by (intro round_half_even_unique) simp

lemma fl_representable:
  assumes "\<bar>m\<bar> < 2 ^ 53"
  shows "fl (of_int m * 2 powi k) = of_int m * 2 powi k"
proof (cases "m = 0")
  case True
  then show ?thesis by (simp add: fl_def)
next
  case False
  define x :: rat where "x = of_int m * 2 powi k"
  have x0: "x \<noteq> 0" using False by (simp add: x_def)
  define e where "e = exponent x"
  have "2 powi e \<le> \<bar>x\<bar>" unfolding e_def by (rule exponent_lower [OF x0])
  also have "\<bar>x\<bar> = of_int \<bar>m\<bar> * 2 powi k"
    by (simp add: x_def abs_mult)
  also have "\<dots> < 2 ^ 53 * 2 powi k"
  proof -
    have "(of_int \<bar>m\<bar> :: rat) < of_int (2 ^ 53)"
      using assms by (simp only: of_int_less_iff)
    then have "(of_int \<bar>m\<bar> :: rat) < 2 ^ 53" by simp
    then show ?thesis by (intro mult_strict_right_mono) simp_all
  qed
  also have "\<dots> = (2::rat) powi (53 + k)"
    by (simp add: power_int_add)
  finally have lt: "(2::rat) powi e < 2 powi (53 + k)" .
  have "e < 53 + k"
  proof (rule ccontr)
    assume "\<not> e < 53 + k"
    then have "53 + k \<le> e" by simp
    then have "(2::rat) powi (53 + k) \<le> 2 powi e"
      by (intro power_int_increasing) simp_all
    with lt show False by simp
  qed
  then have "0 \<le> k - (e - 52)" by simp
  then obtain j :: nat where j: "k - (e - 52) = int j"
    using nonneg_int_cases by blast
  have "x / 2 powi (e - 52) = of_int m * 2 powi (k - (e - 52))"
    by (simp add: x_def power_int_diff)
  also have "\<dots> = of_int (m * 2 ^ j)"
    by (simp add: j)
  finally have q: "x / 2 powi (e - 52) = of_int (m * 2 ^ j)" .
  have "fl x = of_int (round_half_even (x / 2 powi (e - 52))) * 2 powi (e - 52)"
    using x0 by (simp add: fl_def Let_def e_def)
  also have "\<dots> = of_int (m * 2 ^ j) * 2 powi (e - 52)"
    unfolding q round_half_even_of_int ..
  also have "\<dots> = x / 2 powi (e - 52) * 2 powi (e - 52)"
    unfolding q ..
  also have "\<dots> = x"
    by simp
  finally show ?thesis by (simp add: x_def)
qed

text \<open>Some floats that the scripts use are exact: \<open>0.5\<close>, \<open>1.0\<close>, \<open>100.0\<close>.\<close>

lemma fl_half: "fl (1 / 2) = 1 / 2" and fl_one: "fl 1 = 1" and fl_100: "fl 100 = 100"
  using fl_representable [of 1 "- 1"] fl_representable [of 1 0] fl_representable [of 100 0]
  by simp_all

text \<open>The result of a rounding is a double: rounding it again changes nothing.\<close>

lemma fl_fl: "fl (fl x) = fl x"
proof (cases "x = 0")
  case True
  then show ?thesis by (simp add: fl_def)
next
  case False
  define u :: rat where "u = 2 powi (exponent x - 52)"
  define m where "m = round_half_even (x / u)"
  have u: "0 < u" by (simp add: u_def power_int_def)
  have fx: "fl x = of_int m * 2 powi (exponent x - 52)"
    using False by (simp add: fl_def Let_def u_def m_def)
  have "\<bar>x / u\<bar> < 2 ^ 53"
  proof -
    have "\<bar>x\<bar> < 2 powi (exponent x + 1)" by (rule exponent_upper [OF False])
    also have "\<dots> = 2 ^ 53 * u"
      by (simp add: u_def power_int_diff power_int_add)
    finally show ?thesis using u by (simp add: abs_mult field_simps)
  qed
  then have "\<bar>of_int m :: rat\<bar> < 2 ^ 53 + 1"
    using round_half_even_error [of "x / u"] unfolding m_def by arith
  then have "(of_int \<bar>m\<bar> :: rat) < of_int (2 ^ 53 + 1)"
    by simp
  then have m: "\<bar>m\<bar> \<le> 2 ^ 53"
    by (simp only: of_int_less_iff)
  show ?thesis
  proof (cases "\<bar>m\<bar> < 2 ^ 53")
    case True
    then show ?thesis unfolding fx by (rule fl_representable)
  next
    case False
    with m have "m = 2 ^ 53 \<or> m = - (2 ^ 53)" by arith
    then have "fl x = of_int 1 * 2 powi (exponent x + 1) \<or>
               fl x = of_int (- 1) * 2 powi (exponent x + 1)"
      unfolding fx by (auto simp: power_int_diff power_int_add)
    then show ?thesis
      using fl_representable [of 1 "exponent x + 1"] fl_representable [of "- 1" "exponent x + 1"]
      by auto
  qed
qed


section \<open>Properties of docx_to_pdf.py\<close>

lemma text_parts_filter:
  "text_parts rs = map markup_run (filter (\<lambda>r. run_text r \<noteq> []) rs)"
  by (induction rs) simp_all

text \<open>
  C2 (as in the code): every run with text contributes its own markup, runs are
  concatenated in order and never merged, and the nesting is underline outermost, then
  italic, then bold innermost, each flag deciding its own pair of tags.
\<close>

theorem parse_docx_paragraph_nesting:
  "parse_docx_paragraph para =
     concat (map (\<lambda>r.
         (if truthy (underline r) then ''<u>'' else '''')
       @ (if truthy (italic r) then ''<i>'' else '''')
       @ (if truthy (bold r) then ''<b>'' else '''')
       @ run_text r
       @ (if truthy (bold r) then ''</b>'' else '''')
       @ (if truthy (italic r) then ''</i>'' else '''')
       @ (if truthy (underline r) then ''</u>'' else ''''))
       (filter (\<lambda>r. run_text r \<noteq> []) (runs para)))"
proof -
  have "markup_run = (\<lambda>r.
         (if truthy (underline r) then ''<u>'' else '''')
       @ (if truthy (italic r) then ''<i>'' else '''')
       @ (if truthy (bold r) then ''<b>'' else '''')
       @ run_text r
       @ (if truthy (bold r) then ''</b>'' else '''')
       @ (if truthy (italic r) then ''</i>'' else '''')
       @ (if truthy (underline r) then ''</u>'' else ''''))"
    by (rule ext) (simp add: markup_run_def Let_def)
  then show ?thesis
    unfolding parse_docx_paragraph_def text_parts_filter by (rule arg_cong)
qed

text \<open>
  C2 (as stated) fails: a bold italic run is rendered with the italic tags outside the
  bold ones, not with bold outermost.
\<close>

theorem parse_docx_paragraph_bold_outermost_counterexample:
  "parse_docx_paragraph
     \<lparr>runs = [\<lparr>run_text = ''x'', bold = Some True, italic = Some True, underline = None\<rparr>],
      style_name = Some ''Normal'', alignment = None\<rparr> = ''<i><b>x</b></i>''
   \<and> spec_markup_run \<lparr>run_text = ''x'', bold = Some True, italic = Some True, underline = None\<rparr>
       = ''<b><i>x</i></b>''
   \<and> parse_docx_paragraph
     \<lparr>runs = [\<lparr>run_text = ''x'', bold = Some True, italic = Some True, underline = None\<rparr>],
      style_name = Some ''Normal'', alignment = None\<rparr>
     \<noteq> concat (map spec_markup_run
         [\<lparr>run_text = ''x'', bold = Some True, italic = Some True, underline = None\<rparr>])"
  by (simp add: parse_docx_paragraph_def markup_run_def spec_markup_run_def truthy_def)


text \<open>
  C8: when the arguments are there and the input path names no existing file, the
  converter prints the report of the missing file and exits with 1. The outcome is the
  same for every behaviour of the libraries and leaves the world as it was: nothing of
  the conversion has run.
\<close>

theorem docx_main_input_not_found:
  assumes "3 \<le> length argv" and "\<not> path_exists env w (argv ! 1)"
  shows "docx_script None env w argv =
           \<lparr>stdout = [[(''success'', PBool False),
                        (''error'', PStr (''Input file not found: '' @ argv ! 1))]],
            exit_code = 1, world = w\<rparr>"
  using assms by (simp add: docx_script_def docx_main_def Let_def)

theorem docx_main_input_not_found_witness:
  "docx_script None demo_docx_env [] [''docx_to_pdf.py'', ''missing.docx'', ''out.pdf''] =
     \<lparr>stdout = [[(''success'', PBool False),
                  (''error'', PStr ''Input file not found: missing.docx'')]],
      exit_code = 1, world = []\<rparr>"
  using docx_main_input_not_found
    [of "[''docx_to_pdf.py'', ''missing.docx'', ''out.pdf'']" demo_docx_env "[]"]
  by (simp add: demo_docx_env_def)

subsection \<open>The fallback after a formatting failure\<close>

lemma scan_clean_char:
  "m \<in> markers \<Longrightarrow> c \<noteq> CHR ''<'' \<Longrightarrow> replace_scan m [] (c # s) = c # replace_scan m [] s"
  by (auto simp: markers_def)

lemma scan_clean:
  "m \<in> markers \<Longrightarrow> CHR ''<'' \<notin> set s \<Longrightarrow> replace_scan m [] (s @ t) = s @ replace_scan m [] t"
  by (induction s) (auto simp del: replace_scan.simps simp: scan_clean_char)

lemma scan_same:
  "m \<in> markers \<Longrightarrow> replace_scan m [] (m @ t) = replace_scan m [] t"
  by (auto simp: markers_def)

lemma scan_other:
  "m \<in> markers \<Longrightarrow> m' \<in> markers \<Longrightarrow> m \<noteq> m' \<Longrightarrow>
     replace_scan m [] (m' @ t) = m' @ replace_scan m [] t"
  by (auto simp: markers_def)

lemma scan_render:
  "m \<in> markers \<Longrightarrow> list_all wf_tok ts \<Longrightarrow>
     replace_scan m [] (render ts) = render (filter (\<lambda>t. t \<noteq> Tag m) ts)"
proof (induction ts)
  case Nil
  then show ?case by simp
next
  case (Cons t ts)
  then show ?case
    by (cases t) (auto simp del: replace_scan.simps simp: scan_clean scan_same scan_other)
qed

lemma replace_render:
  assumes "m \<in> markers" and "list_all wf_tok ts"
  shows "replace (render ts) m [] = render (filter (\<lambda>t. t \<noteq> Tag m) ts)"
proof -
  from assms(1) have "m \<noteq> []" by (auto simp: markers_def)
  then show ?thesis by (simp add: replace_def scan_render [OF assms])
qed

lemma wf_filter: "list_all wf_tok ts \<Longrightarrow> list_all wf_tok (filter P ts)"
  by (induction ts) auto

lemma strip_markup_render:
  assumes "list_all wf_tok ts"
  shows "strip_markup (render ts) = render (filter is_Lit ts)"
proof -
  have lit: "filter (\<lambda>t. t \<noteq> Tag ''</u>'') (filter (\<lambda>t. t \<noteq> Tag ''<u>'')
       (filter (\<lambda>t. t \<noteq> Tag ''</i>'') (filter (\<lambda>t. t \<noteq> Tag ''<i>'')
       (filter (\<lambda>t. t \<noteq> Tag ''</b>'') (filter (\<lambda>t. t \<noteq> Tag ''<b>'') us)))))
      = filter is_Lit us" if "list_all wf_tok us" for us
    using that
  proof (induction us)
    case Nil
    then show ?case by simp
  next
    case (Cons u us)
    then show ?case by (cases u) (auto simp: markers_def)
  qed
  have m: "''<b>'' \<in> markers" "''</b>'' \<in> markers" "''<i>'' \<in> markers"
    "''</i>'' \<in> markers" "''<u>'' \<in> markers" "''</u>'' \<in> markers"
    by (simp_all add: markers_def)
  show ?thesis
    unfolding strip_markup_def
    by (simp only: replace_render m assms wf_filter lit)
qed

lemma render_append: "render (ts @ us) = render ts @ render us"
  by (induction ts rule: render.induct) simp_all

lemma markup_run_render: "markup_run = (\<lambda>r. render (run_toks r))"
  by (rule ext) (simp add: markup_run_def run_toks_def Let_def)

lemma render_concat: "render (concat tss) = concat (map render tss)"
  by (induction tss) (simp_all add: render_append)

lemma parse_render:
  "parse_docx_paragraph para =
     render (concat (map run_toks (filter (\<lambda>r. run_text r \<noteq> []) (runs para))))"
  by (simp add: parse_docx_paragraph_def text_parts_filter render_concat comp_def
      markup_run_render)

lemma lits_of_runs:
  "render (filter is_Lit (concat (map run_toks rs))) = concat (map run_text rs)"
  by (induction rs) (simp_all add: run_toks_def render_append)

lemma concat_nonempty:
  "concat (map run_text (filter (\<lambda>r. run_text r \<noteq> []) rs)) = concat (map run_text rs)"
  by (induction rs) simp_all

lemma wf_run_toks:
  "CHR ''<'' \<notin> set (run_text r) \<Longrightarrow> list_all wf_tok (run_toks r)"
  by (simp add: run_toks_def markers_def)

lemma strip_markup_plain:
  assumes "\<forall>r\<in>set (runs para). CHR ''<'' \<notin> set (run_text r)"
  shows "strip_markup (parse_docx_paragraph para) = concat (map run_text (runs para))"
proof -
  have "list_all wf_tok (concat (map run_toks (filter (\<lambda>r. run_text r \<noteq> []) (runs para))))"
    using assms by (auto simp: list_all_iff dest: wf_run_toks [unfolded list_all_iff])
  then show ?thesis
    by (simp add: parse_render strip_markup_render lits_of_runs concat_nonempty)
qed


lemma paragraphs_story_ok:
  assumes "\<forall>p\<in>set ps. strip (parse_docx_paragraph p) \<noteq> [] \<longrightarrow>
             (\<exists>style. paragraph_style p = Inr style \<and>
                (Paragraph env (parse_docx_paragraph p) style \<noteq> None \<longrightarrow>
                   Paragraph env (strip_markup (parse_docx_paragraph p)) style = None))"
  shows "paragraphs_story env ps = Inr (map (spec_paragraph_flowable env) ps)"
  using assms
proof (induction ps)
  case Nil
  then show ?case by simp
next
  case (Cons p ps)
  have "paragraph_flowable env p = Inr (spec_paragraph_flowable env p)"
    using Cons.prems
    by (auto simp: paragraph_flowable_def spec_paragraph_flowable_def create_paragraph_def
        bind_exn_def Let_def split: option.splits)
  with Cons show ?case by (simp add: bind_exn_def)
qed

lemma tables_story_ok:
  assumes "\<forall>t\<in>set ts. table_data t \<noteq> [] \<longrightarrow> Table env (table_data t) = None"
  shows "\<exists>fs. tables_story env ts = Inr fs"
  using assms by (induction ts) (auto simp: bind_exn_def)

lemma make_story_ok:
  assumes "\<forall>p\<in>set (paragraphs doc). strip (parse_docx_paragraph p) \<noteq> [] \<longrightarrow>
             (\<exists>style. paragraph_style p = Inr style \<and>
                (Paragraph env (parse_docx_paragraph p) style \<noteq> None \<longrightarrow>
                   Paragraph env (strip_markup (parse_docx_paragraph p)) style = None))"
      and "\<forall>t\<in>set (tables doc). table_data t \<noteq> [] \<longrightarrow> Table env (table_data t) = None"
  shows "make_story env doc = Inr (projr (make_story env doc))"
  using paragraphs_story_ok [OF assms(1)] tables_story_ok [OF assms(2)]
  by (auto simp: make_story_def bind_exn_def)

lemma docx_to_pdf_success:
  assumes "Document env w input_path = Inr doc"
      and "make_story env doc = Inr story"
      and "build env (template output_path) story w = (None, w')"
      and "getsize env w' output_path = Inr n"
  shows "docx_to_pdf env w input_path output_path =
           ([(''success'', PBool True),
             (''paragraphs'', PInt (int (length (paragraphs doc)))),
             (''tables'', PInt (int (length (tables doc)))),
             (''output_size'', PInt (int n)),
             (''format'', PStr ''pdf'')], w')"
  using assms by (simp add: docx_to_pdf_def)

text \<open>
  What holds of the fallback. When the styled construction of a paragraph fails, the
  converter retries with \<open>strip_markup\<close> of the marked-up string, the six markers
  replaced by nothing in six successive passes, in the same style. When every non-blank
  paragraph has a style and fails at most at the styled construction (its retry
  succeeds), the tables are built, the document is written and its size is read, the
  conversion succeeds, each paragraph giving its spacer, its styled block or the block
  of its stripped text. When no run of a paragraph has a \<open><\<close> in its text, the stripped
  text is the plain text of the runs.
\<close>

theorem formatting_failure_fallback:
  assumes "Document env w input_path = Inr doc"
      and "\<forall>p\<in>set (paragraphs doc). strip (parse_docx_paragraph p) \<noteq> [] \<longrightarrow>
             (\<exists>style. paragraph_style p = Inr style \<and>
                (Paragraph env (parse_docx_paragraph p) style \<noteq> None \<longrightarrow>
                   Paragraph env (strip_markup (parse_docx_paragraph p)) style = None))"
      and "\<forall>t\<in>set (tables doc). table_data t \<noteq> [] \<longrightarrow> Table env (table_data t) = None"
      and "build env (template output_path) (projr (make_story env doc)) w = (None, w')"
      and "getsize env w' output_path = Inr n"
  shows "docx_to_pdf env w input_path output_path =
           ([(''success'', PBool True),
             (''paragraphs'', PInt (int (length (paragraphs doc)))),
             (''tables'', PInt (int (length (tables doc)))),
             (''output_size'', PInt (int n)),
             (''format'', PStr ''pdf'')], w')
         \<and> paragraphs_story env (paragraphs doc) =
             Inr (map (spec_paragraph_flowable env) (paragraphs doc))
         \<and> (\<forall>p\<in>set (paragraphs doc).
               (\<forall>r\<in>set (runs p). CHR ''<'' \<notin> set (run_text r)) \<longrightarrow>
               strip_markup (parse_docx_paragraph p) = concat (map run_text (runs p)))"
  using docx_to_pdf_success [OF assms(1) make_story_ok [OF assms(2,3)] assms(4,5)]
    paragraphs_story_ok [OF assms(2)] strip_markup_plain
  by blast


lemma demo_paragraph_fails:
  "Paragraph demo_docx_env t style = (if CHR ''<'' \<in> set t
          then Some (LibraryError ''paraparser: syntax error'') else None)"
  by (simp add: demo_docx_env_def)

theorem formatting_failure_fallback_witness:
  "fst (docx_to_pdf demo_docx_env [(''in.docx'', 10)] ''in.docx'' ''out.pdf'') =
     [(''success'', PBool True), (''paragraphs'', PInt 3), (''tables'', PInt 2),
      (''output_size'',
         PInt (int (500 + length (projr (make_story demo_docx_env demo_document))))),
      (''format'', PStr ''pdf'')]
   \<and> paragraphs_story demo_docx_env (paragraphs demo_document) =
       Inr (map (spec_paragraph_flowable demo_docx_env) (paragraphs demo_document))
   \<and> Paragraph demo_docx_env ''<b>Report</b>'' (projr (paragraph_style (hd (paragraphs demo_document))))
       \<noteq> None
   \<and> spec_paragraph_flowable demo_docx_env (hd (paragraphs demo_document)) =
       Para ''Report'' (projr (paragraph_style (hd (paragraphs demo_document))))
   \<and> strip_markup (parse_docx_paragraph (hd (paragraphs demo_document))) = ''Report''"
proof -
  have d: "Document demo_docx_env [(''in.docx'', 10)] ''in.docx'' = Inr demo_document"
    by (simp add: demo_docx_env_def)
  have p: "\<forall>p\<in>set (paragraphs demo_document). strip (parse_docx_paragraph p) \<noteq> [] \<longrightarrow>
             (\<exists>style. paragraph_style p = Inr style \<and>
                (Paragraph demo_docx_env (parse_docx_paragraph p) style \<noteq> None \<longrightarrow>
                   Paragraph demo_docx_env (strip_markup (parse_docx_paragraph p)) style = None))"
    by (simp add: demo_document_def parse_docx_paragraph_def markup_run_def truthy_def
        paragraph_style_def demo_paragraph_fails strip_markup_def replace_def)
  have t: "\<forall>t\<in>set (tables demo_document). table_data t \<noteq> [] \<longrightarrow>
             Table demo_docx_env (table_data t) = None"
    by (simp add: demo_docx_env_def)
  have b: "build demo_docx_env (template ''out.pdf'')
             (projr (make_story demo_docx_env demo_document)) [(''in.docx'', 10)] =
           (None, [(''out.pdf'', 500 + length (projr (make_story demo_docx_env demo_document))),
                   (''in.docx'', 10)])"
    by (simp add: demo_docx_env_def template_def)
  have g: "getsize demo_docx_env
             [(''out.pdf'', 500 + length (projr (make_story demo_docx_env demo_document))),
              (''in.docx'', 10)] ''out.pdf'' =
           Inr (500 + length (projr (make_story demo_docx_env demo_document)))"
    by (simp add: demo_docx_env_def)
  have h: "hd (paragraphs demo_document) =
      \<lparr>runs = [\<lparr>run_text = ''Report'', bold = Some True, italic = None, underline = None\<rparr>],
          style_name = Some ''Heading 1'', alignment = Some CENTER\<rparr>"
    by (simp add: demo_document_def)
  have s: "spec_paragraph_flowable demo_docx_env (hd (paragraphs demo_document)) =
       Para ''Report'' (projr (paragraph_style (hd (paragraphs demo_document))))"
    unfolding h
    by (simp add: spec_paragraph_flowable_def parse_docx_paragraph_def markup_run_def truthy_def
        demo_paragraph_fails strip_markup_def replace_def strip_def isspace_def Let_def)
  show ?thesis
    using formatting_failure_fallback [OF d p t b g] s
    by (simp add: demo_paragraph_fails demo_document_def)
qed

text \<open>
  C9 at a failing input: a document whose one paragraph is the unformatted text
  \<open><<i>b>\<close>. Its marked-up string is the text itself; with a library that refuses it
  (the \<open><i>\<close> is never closed) the fallback runs, and the six passes leave \<open><b>\<close>:
  the retry is made with a bold marker, not with plain text. The sample library refuses
  that too, the exception of the retry is not caught by the inner handler, and the
  whole conversion ends with \<open>success: false\<close>.
\<close>

theorem fallback_retry_not_plain_text:
  "parse_docx_paragraph (hd (paragraphs marker_document)) = ''<<i>b>''
   \<and> Paragraph demo_docx_env ''<<i>b>'' (choose_style ''Normal'' TA_LEFT) =
       Some (LibraryError ''paraparser: syntax error'')
   \<and> strip_markup ''<<i>b>'' = ''<b>''
   \<and> ''<b>'' \<in> markers
   \<and> create_paragraph demo_docx_env ''<<i>b>'' (choose_style ''Normal'' TA_LEFT) =
       Inl (LibraryError ''paraparser: syntax error'')
   \<and> docx_to_pdf (demo_docx_env\<lparr>Document := \<lambda>w p. Inr marker_document\<rparr>)
         [(''in.docx'', 10)] ''in.docx'' ''out.pdf'' =
       ([(''success'', PBool False), (''error'', PStr ''paraparser: syntax error'')],
        [(''in.docx'', 10)])"
proof -
  have s: "strip_markup ''<<i>b>'' = ''<b>''"
    by (simp add: strip_markup_def replace_def)
  have t: "parse_docx_paragraph (hd (paragraphs marker_document)) = ''<<i>b>''"
    by (simp add: marker_document_def parse_docx_paragraph_def markup_run_def truthy_def)
  have "paragraph_flowable (demo_docx_env\<lparr>Document := d\<rparr>) (hd (paragraphs marker_document)) =
          Inl (LibraryError ''paraparser: syntax error'')" for d
    unfolding paragraph_flowable_def t Let_def
    by (simp add: strip_def isspace_def paragraph_style_def marker_document_def bind_exn_def
        create_paragraph_def demo_paragraph_fails s)
  then have "make_story (demo_docx_env\<lparr>Document := d\<rparr>) marker_document =
          Inl (LibraryError ''paraparser: syntax error'')" for d
    by (simp add: make_story_def marker_document_def bind_exn_def)
  then have "docx_to_pdf (demo_docx_env\<lparr>Document := \<lambda>w p. Inr marker_document\<rparr>)
         [(''in.docx'', 10)] ''in.docx'' ''out.pdf'' =
       ([(''success'', PBool False), (''error'', PStr ''paraparser: syntax error'')],
        [(''in.docx'', 10)])"
    by (simp add: docx_to_pdf_def failure_def)
  then show ?thesis
    using t s by (simp add: demo_paragraph_fails markers_def create_paragraph_def)
qed

section \<open>The exit code of the two scripts\<close>

lemma success_failure: "\<not> success (failure e)"
  by (simp add: success_def failure_def)

text \<open>
  The converter keeps the contract of the exit code: one report, and exit code 0 exactly
  when the report says \<open>success: true\<close>. Its \<open>main\<close> ends with
  \<open>sys.exit(0 if result['success'] else 1)\<close>.
\<close>

lemma docx_script_exit_code:
  "length (stdout (docx_script import_error env w argv)) = 1
   \<and> (exit_code (docx_script import_error env w argv) = 0)
       = success (hd (stdout (docx_script import_error env w argv)))"
  by (auto simp: docx_script_def docx_main_def success_def Let_def
      split: option.splits prod.splits)

text \<open>\<open>pdf_helper.py\<close> prints one report on every path, too.\<close>

lemma pdf_script_one_report:
  "length (stdout (pdf_script import_error env w argv)) = 1"
  by (auto simp: pdf_script_def pdf_main_def Let_def split: option.splits prod.splits sum.splits)


text \<open>
  An operation of \<open>pdf_helper.py\<close> that fails is reported with exit code 0: here
  \<open>compress\<close> when the input cannot be opened, for every library and every world.
\<close>

lemma pdf_main_compress_failure:
  assumes "5 \<le> length argv" and "argv ! 1 = ''compress''"
      and "Pdf_open env w (argv ! 2) = Inl e"
  shows "pdf_script None env w argv = \<lparr>stdout = [failure e], exit_code = 0, world = w\<rparr>"
  using assms by (simp add: pdf_script_def pdf_main_def compress_pdf_def Let_def)


text \<open>
  C1 at a failing input: \<open>compress\<close> on an input file that does not exist. The
  operation reports \<open>success: false\<close>, \<open>main\<close> prints the report and returns, and the
  exit code is 0, where the claim asks for 1.
\<close>

theorem pdf_main_failure_exit_code:
  "pdf_script None demo_pdf_env demo_world
     [''pdf_helper.py'', ''compress'', ''missing.pdf'', ''out.pdf'', ''medium''] =
     \<lparr>stdout = [[(''success'', PBool False),
                  (''error'', PStr ''No such file or directory: missing.pdf'')]],
      exit_code = 0, world = demo_world\<rparr>"
  by (simp add: pdf_script_def pdf_main_def compress_pdf_def demo_pdf_env_def demo_world_def
      failure_def)

section \<open>Properties of pdf_helper.py\<close>

subsection \<open>compress_pdf\<close>

lemma compress_pdf_success:
  assumes "Pdf_open env w input_path = Inr pdf"
      and "level_options level = Inr options"
      and "Pdf_save env pdf output_path options w = (None, w')"
      and "os_path_getsize env w' input_path = Inr input_size"
      and "os_path_getsize env w' output_path = Inr output_size"
  shows "compress_pdf env w input_path output_path level =
           ([(''success'', PBool True),
             (''original_size'', PInt (int input_size)),
             (''compressed_size'', PInt (int output_size)),
             (''saved_bytes'', PInt (int input_size - int output_size)),
             (''compression_ratio'',
                PStr (format_2f (compression_ratio input_size output_size) @ ''%'')),
             (''level'', PStr level)], w')"
  using assms by (simp add: compress_pdf_def)

lemma level_options_total:
  "level_options level = Inr (dict_get save_options level
      [(''compress_streams'', PBool True), (''stream_decode_level'', PInt 1),
       (''object_stream_mode'', PInt 1), (''recompress_flate'', PBool True)])"
  by (simp add: level_options_def dict_item_def save_options_def bind_exn_def)

text \<open>The sample file of 100 bytes: \<open>low\<close> leaves 164 bytes, every other level 50.\<close>

lemma demo_compress:
  "compress_pdf demo_pdf_env demo_world ''in.pdf'' ''out.pdf'' level =
           ([(''success'', PBool True),
             (''original_size'', PInt 100),
             (''compressed_size'', PInt (if level = ''low'' then 164 else 50)),
             (''saved_bytes'', PInt (if level = ''low'' then - 64 else 50)),
             (''compression_ratio'',
                PStr (format_2f (compression_ratio 100 (if level = ''low'' then 164 else 50)) @ ''%'')),
             (''level'', PStr level)],
            (''out.pdf'', if level = ''low'' then 164 else 50,
               [((612, 792), []), ((595, 842), [])]) # demo_world)"
  apply (subst compress_pdf_success [where pdf = "(100, [((612, 792), []), ((595, 842), [])])"
       and options = "dict_get save_options level
      [(''compress_streams'', PBool True), (''stream_decode_level'', PInt 1),
       (''object_stream_mode'', PInt 1), (''recompress_flate'', PBool True)]"
       and w' = "(''out.pdf'', if level = ''low'' then 164 else 50,
               [((612, 792), []), ((595, 842), [])]) # demo_world"
       and input_size = 100 and output_size = "if level = ''low'' then 164 else 50"])
       apply (simp add: demo_pdf_env_def demo_world_def)
      apply (rule level_options_total)
     apply (simp add: demo_pdf_env_def demo_world_def dict_get_def save_options_def)
    apply (simp add: demo_pdf_env_def demo_world_def demo_getsize_def)
   apply (simp add: demo_pdf_env_def demo_world_def demo_getsize_def)
  apply simp
  done

lemma level_options_unknown:
  "level \<notin> {''low'', ''medium'', ''high'', ''extreme''} \<Longrightarrow>
     level_options level = level_options ''medium''"
  by (simp add: level_options_def dict_item_def dict_get_def save_options_def bind_exn_def)

lemma map_entry_failure: "AList.map_entry ''level'' f (failure e) = failure e"
  by (simp add: failure_def)

text \<open>
  C3 (as in the code): for a level that is none of the four, the settings handed to
  \<open>save\<close> are those of \<open>medium\<close>, and the run is the run with \<open>medium\<close> (same world,
  same report) but for the \<open>level\<close> entry of a success report, which holds the string
  that was given.
\<close>

theorem compress_unknown_level:
  assumes "level \<notin> {''low'', ''medium'', ''high'', ''extreme''}"
  shows "level_options level = level_options ''medium'' \<and>
         compress_pdf env w input_path output_path level =
           (case compress_pdf env w input_path output_path ''medium'' of
              (result, w') \<Rightarrow> (AList.map_entry ''level'' (\<lambda>v. PStr level) result, w'))"
  using level_options_unknown [OF assms]
  by (auto simp: compress_pdf_def map_entry_failure split: sum.splits prod.splits option.splits)

theorem compress_unknown_level_witness:
  "level_options ''turbo'' = level_options ''medium'' \<and>
   compress_pdf demo_pdf_env demo_world ''in.pdf'' ''out.pdf'' ''turbo'' =
     (case compress_pdf demo_pdf_env demo_world ''in.pdf'' ''out.pdf'' ''medium'' of
        (result, w') \<Rightarrow> (AList.map_entry ''level'' (\<lambda>v. PStr ''turbo'') result, w'))"
  using compress_unknown_level [of "''turbo''" demo_pdf_env demo_world "''in.pdf''" "''out.pdf''"]
  by simp

text \<open>
  C3 (as stated) fails: the report for the level \<open>turbo\<close> is not the report for
  \<open>medium\<close>.
\<close>

theorem compress_unknown_level_counterexample:
  "compress_pdf demo_pdf_env demo_world ''in.pdf'' ''out.pdf'' ''turbo''
     \<noteq> compress_pdf demo_pdf_env demo_world ''in.pdf'' ''out.pdf'' ''medium''"
  by (simp add: demo_compress)


text \<open>
  C4: on success the \<open>compression_ratio\<close> of the report is a decimal with exactly two
  digits after the point followed by \<open>%\<close>. For an input of size 0 it is \<open>0.00%\<close>. For
  a larger input the number it denotes is the exact ratio
  \<open>(original_size - compressed_size) / original_size * 100\<close> up to the rounding to
  two decimals (at most 0.005) and the rounding of the two float operations (at most
  \<open>2\<^sup>-\<^sup>5\<^sup>1\<close> of the exact ratio).
\<close>

theorem compress_ratio_report:
  assumes "Pdf_open env w input_path = Inr pdf"
      and "level_options level = Inr options"
      and "Pdf_save env pdf output_path options w = (None, w')"
      and "os_path_getsize env w' input_path = Inr input_size"
      and "os_path_getsize env w' output_path = Inr output_size"
  shows "compress_pdf env w input_path output_path level =
           ([(''success'', PBool True),
             (''original_size'', PInt (int input_size)),
             (''compressed_size'', PInt (int output_size)),
             (''saved_bytes'', PInt (int input_size - int output_size)),
             (''compression_ratio'',
                PStr (format_2f (compression_ratio input_size output_size) @ ''%'')),
             (''level'', PStr level)], w')
         \<and> two_decimals (format_2f (compression_ratio input_size output_size))
         \<and> (input_size = 0 \<longrightarrow>
               format_2f (compression_ratio input_size output_size) @ ''%'' = ''0.00%'')
         \<and> (0 < input_size \<longrightarrow>
               \<bar>decimal_value (format_2f (compression_ratio input_size output_size))
                  - of_int (int input_size - int output_size) / of_nat input_size * 100\<bar>
               \<le> 1 / 200
                  + \<bar>of_int (int input_size - int output_size) / of_nat input_size * 100\<bar>
                    / 2 ^ 51)"
proof -
  have "\<bar>decimal_value (format_2f (compression_ratio input_size output_size))
                  - of_int (int input_size - int output_size) / of_nat input_size * 100\<bar>
               \<le> 1 / 200
                  + \<bar>of_int (int input_size - int output_size) / of_nat input_size * 100\<bar>
                    / 2 ^ 51" if "0 < input_size"
    using decimal_value_format_2f_error [of "compression_ratio input_size output_size"]
      compression_ratio_error [OF that, of output_size]
    by arith
  then show ?thesis
    using compress_pdf_success [OF assms] two_decimals_format_2f
    by (auto simp: compression_ratio_zero format_2f_zero)
qed

theorem compress_ratio_report_witness:
  "fst (compress_pdf demo_pdf_env demo_world ''in.pdf'' ''out.pdf'' ''medium'') =
     [(''success'', PBool True), (''original_size'', PInt 100), (''compressed_size'', PInt 50),
      (''saved_bytes'', PInt 50), (''compression_ratio'', PStr ''50.00%''),
      (''level'', PStr ''medium'')]
   \<and> fst (compress_pdf demo_pdf_env demo_world ''zero.pdf'' ''out.pdf'' ''medium'') =
     [(''success'', PBool True), (''original_size'', PInt 0), (''compressed_size'', PInt 0),
      (''saved_bytes'', PInt 0), (''compression_ratio'', PStr ''0.00%''),
      (''level'', PStr ''medium'')]
   \<and> two_decimals ''50.00''
   \<and> \<bar>decimal_value ''50.00'' - 50\<bar> \<le> 1 / 200 + 50 / 2 ^ 51"
proof -
  have o1: "Pdf_open demo_pdf_env demo_world ''in.pdf'' =
              Inr (100, [((612, 792), []), ((595, 842), [])])"
    and o2: "Pdf_open demo_pdf_env demo_world ''zero.pdf'' = Inr (0, [])"
    by (simp_all add: demo_pdf_env_def demo_world_def)
  have s: "Pdf_save demo_pdf_env (n, ps) ''out.pdf''
             (dict_get save_options ''medium''
               [(''compress_streams'', PBool True), (''stream_decode_level'', PInt 1),
                (''object_stream_mode'', PInt 1), (''recompress_flate'', PBool True)]) demo_world =
           (None, (''out.pdf'', n div 2, ps) # demo_world)" for n ps
    by (simp add: demo_pdf_env_def dict_get_def save_options_def)
  have g1: "os_path_getsize demo_pdf_env ((''out.pdf'', n, ps) # demo_world) ''in.pdf'' = Inr 100"
    and g2: "os_path_getsize demo_pdf_env ((''out.pdf'', n, ps) # demo_world) ''zero.pdf'' = Inr 0"
    and g3: "os_path_getsize demo_pdf_env ((''out.pdf'', n, ps) # demo_world) ''out.pdf'' = Inr n"
    for n ps
    by (simp_all add: demo_pdf_env_def demo_world_def demo_getsize_def)
  note a = compress_ratio_report [OF o1 level_options_total s g1 g3]
    and b = compress_ratio_report [OF o2 level_options_total s g2 g3]
  show ?thesis
    using a b by (simp add: demo_ratio_medium)
qed

text \<open>
  C5 (as in the code): for every level, on an input that is not empty and when the
  library calls succeed, the report is a success, the compressed size is not negative
  and the ratio is a decimal with exactly two digits after the point. When the output
  is no larger than the input the decimal has no sign and denotes a number that is not
  negative; when the output is larger the decimal starts with \<open>-\<close>.
\<close>

theorem compress_ratio_sign:
  assumes "Pdf_open env w input_path = Inr pdf"
      and "level_options level = Inr options"
      and "Pdf_save env pdf output_path options w = (None, w')"
      and "os_path_getsize env w' input_path = Inr input_size"
      and "os_path_getsize env w' output_path = Inr output_size"
      and "0 < input_size"
  shows "compress_pdf env w input_path output_path level =
           ([(''success'', PBool True),
             (''original_size'', PInt (int input_size)),
             (''compressed_size'', PInt (int output_size)),
             (''saved_bytes'', PInt (int input_size - int output_size)),
             (''compression_ratio'',
                PStr (format_2f (compression_ratio input_size output_size) @ ''%'')),
             (''level'', PStr level)], w')
         \<and> 0 \<le> int output_size
         \<and> two_decimals (format_2f (compression_ratio input_size output_size))
         \<and> (output_size \<le> input_size \<longrightarrow>
               hd (format_2f (compression_ratio input_size output_size)) \<noteq> CHR ''-''
               \<and> 0 \<le> decimal_value (format_2f (compression_ratio input_size output_size)))
         \<and> (input_size < output_size \<longrightarrow>
               hd (format_2f (compression_ratio input_size output_size)) = CHR ''-''
               \<and> decimal_value (format_2f (compression_ratio input_size output_size)) \<le> 0)"
proof -
  have "0 \<le> compression_ratio input_size output_size" if "output_size \<le> input_size"
    using that compression_ratio_sign(1,2) [OF assms(6), of output_size]
    by (cases "output_size = input_size") simp_all
  moreover have "compression_ratio input_size output_size < 0" if "input_size < output_size"
    using that by (rule compression_ratio_sign(3) [OF assms(6)])
  ultimately show ?thesis
    using compress_pdf_success [OF assms(1-5)] two_decimals_format_2f
    by (auto simp: hd_format_2f decimal_value_format_2f)
qed

theorem compress_ratio_sign_witness:
  "fst (compress_pdf demo_pdf_env demo_world ''in.pdf'' ''out.pdf'' ''high'') =
     [(''success'', PBool True), (''original_size'', PInt 100), (''compressed_size'', PInt 50),
      (''saved_bytes'', PInt 50), (''compression_ratio'', PStr ''50.00%''),
      (''level'', PStr ''high'')]
   \<and> hd ''50.00'' \<noteq> CHR ''-'' \<and> 0 \<le> decimal_value ''50.00''
   \<and> hd (format_2f (compression_ratio 100 164)) = CHR ''-''"
proof -
  have o1: "Pdf_open demo_pdf_env demo_world ''in.pdf'' =
              Inr (100, [((612, 792), []), ((595, 842), [])])"
    by (simp add: demo_pdf_env_def demo_world_def)
  have s: "Pdf_save demo_pdf_env (n, ps) ''out.pdf''
             (dict_get save_options level
               [(''compress_streams'', PBool True), (''stream_decode_level'', PInt 1),
                (''object_stream_mode'', PInt 1), (''recompress_flate'', PBool True)]) demo_world =
           (None, (''out.pdf'', if level = ''low'' then n + 64 else n div 2, ps) # demo_world)"
    for n ps level
    by (simp add: demo_pdf_env_def dict_get_def save_options_def)
  have g1: "os_path_getsize demo_pdf_env ((''out.pdf'', n, ps) # demo_world) ''in.pdf'' = Inr 100"
    and g3: "os_path_getsize demo_pdf_env ((''out.pdf'', n, ps) # demo_world) ''out.pdf'' = Inr n"
    for n ps
    by (simp_all add: demo_pdf_env_def demo_world_def demo_getsize_def)
  have p: "(0::nat) < 100" by simp
  note a = compress_ratio_sign [OF o1 level_options_total s g1 g3 p, of "''high''"]
    and b = compress_ratio_sign [OF o1 level_options_total s g1 g3 p, of "''low''"]
  show ?thesis
    using a b by (simp add: demo_ratio_medium)
qed

text \<open>
  C5 (as stated) fails: at the level \<open>low\<close> the sample file of 100 bytes is saved as
  164 bytes, and the ratio of the success report is negative.
\<close>

theorem compress_ratio_negative_counterexample:
  "compress_pdf demo_pdf_env demo_world ''in.pdf'' ''out.pdf'' ''low'' =
     ([(''success'', PBool True), (''original_size'', PInt 100), (''compressed_size'', PInt 164),
       (''saved_bytes'', PInt (- 64)), (''compression_ratio'', PStr ''-64.00%''),
       (''level'', PStr ''low'')],
      (''out.pdf'', 164, [((612, 792), []), ((595, 842), [])]) # demo_world)"
  by (simp add: demo_compress demo_ratio_low)


subsection \<open>add_watermark\<close>

lemma watermark_pages_success:
  assumes "\<forall>page\<in>set pages.
             \<exists>p. watermark_page env txt opacity font_size rotation position color page = Inr p"
  shows "watermark_pages env txt opacity font_size rotation position color pages =
           Inr (map (\<lambda>page. projr
                  (watermark_page env txt opacity font_size rotation position color page)) pages)"
  using assms by (induction pages) (auto simp: bind_exn_def)

lemma add_watermark_success:
  assumes "watermark_options options = Inr (opacity, font_size, rotation, position, color)"
      and "PdfReader env w input_path = Inr pages"
      and "\<forall>page\<in>set pages.
             \<exists>p. watermark_page env txt opacity font_size rotation position color page = Inr p"
      and "write_pdf env output_path
             (map (\<lambda>page. projr
                (watermark_page env txt opacity font_size rotation position color page)) pages) w
           = (None, w')"
  shows "add_watermark env w input_path output_path txt options =
           ([(''success'', PBool True), (''pages'', PInt (int (length pages))),
             (''watermark'', PStr txt), (''position'', position)], w')"
  using assms(1,2,4) watermark_pages_success [OF assms(3)]
  by (simp add: add_watermark_def watermark_prepare_def bind_exn_def)


lemma demo_watermark_options_default:
  "watermark_options (PDict []) =
     Inr (PFloat (fl (3 / 10)), PInt 48, PInt 45, PStr ''diagonal'',
          PDict [(''r'', PFloat (1 / 2)), (''g'', PFloat (1 / 2)), (''b'', PFloat (1 / 2))])"
  by (simp add: watermark_options_def options_get_def bind_exn_def dict_get_def)


lemma demo_watermark_page:
  "watermark_page demo_pdf_env txt opacity font_size rotation position
     (PDict [(''r'', PFloat (1 / 2)), (''g'', PFloat (1 / 2)), (''b'', PFloat (1 / 2))]) page =
   Inr (fst page, snd page @
     page_ops txt opacity font_size rotation position (PFloat (1 / 2)) (PFloat (1 / 2))
       (PFloat (1 / 2)) (fst (fst page)) (snd (fst page)))"
proof -
  have calls: "canvas_calls demo_pdf_env can cs = Inr (can @ cs)" for can cs
    by (induction cs arbitrary: can) (simp_all add: demo_pdf_env_def bind_exn_def)
  have "watermark_page demo_pdf_env txt opacity font_size rotation position
     (PDict [(''r'', PFloat (1 / 2)), (''g'', PFloat (1 / 2)), (''b'', PFloat (1 / 2))]) (sz, ops) =
   Inr (sz, ops @
     page_ops txt opacity font_size rotation position (PFloat (1 / 2)) (PFloat (1 / 2))
       (PFloat (1 / 2)) (fst sz) (snd sz))" for sz ops
    unfolding watermark_page_def calls
    by (cases sz) (simp add: subscript_def dict_item_def bind_exn_def demo_pdf_env_def)
  then show ?thesis
    by (cases page) simp
qed

text \<open>
  The calls of the loop body on a page for the position \<open>diagonal\<close>: the overlay canvas
  has the width and the height of the page's media box, and the translation goes to
  half that width and half that height; the overlay is then merged into the page.
\<close>

lemma watermark_page_diagonal:
  assumes "mediabox env page = Inr (page_width, page_height)"
      and "Canvas env (page_width, page_height) = Inr can"
      and "subscript color ''r'' = Inr r"
      and "subscript color ''g'' = Inr g"
      and "subscript color ''b'' = Inr b"
  shows "watermark_page env txt opacity font_size rotation (PStr ''diagonal'') color page =
           bind_exn (canvas_calls env can
              [SetFillColor r g b opacity, SetFont ''Helvetica-Bold'' font_size,
               StringWidth txt ''Helvetica-Bold'' font_size,
               SaveState, Translate (page_width / 2) (page_height / 2), Rotate rotation,
               DrawCentredString 0 0 txt, RestoreState, Save])
             (\<lambda>can'. bind_exn (overlay_page env can') (merge_page env page))"
  using assms
  by (simp add: watermark_page_def page_ops_def position_ops_def bind_exn_def Let_def)

text \<open>
  Under these calls the one string drawn has the point at half the width and half the
  height of the overlay as the centre of its rotation, and its baseline runs through
  that point, half the text width to either side: this holds for every page size,
  rotation and text width.
\<close>

lemma diagonal_baseline_centred:
  "drawn_strings deg width ctm_identity []
     [SetFillColor r g b opacity, SetFont ''Helvetica-Bold'' font_size,
      StringWidth txt ''Helvetica-Bold'' font_size,
      SaveState, Translate (page_width / 2) (page_height / 2), Rotate rotation,
      DrawCentredString 0 0 txt, RestoreState, Save] =
     [(txt,
       (of_rat page_width / 2 - cos (deg rotation * pi / 180) * (width txt / 2),
        of_rat page_height / 2 - sin (deg rotation * pi / 180) * (width txt / 2)),
       (of_rat page_width / 2 + cos (deg rotation * pi / 180) * (width txt / 2),
        of_rat page_height / 2 + sin (deg rotation * pi / 180) * (width txt / 2)),
       (of_rat page_width / 2, of_rat page_height / 2))]"
  by (simp add: ctm_identity_def Let_def of_rat_divide)

text \<open>
  The centre of the box of the drawn text lies half the difference of ascent and
  descent from that point, at a right angle to the baseline, whatever the text width.
  It is that point only for a font whose ascent equals its descent.
\<close>

lemma diagonal_box_centre:
  "box_centres deg width ascent descent
     [SetFillColor r g b opacity, SetFont ''Helvetica-Bold'' font_size,
      StringWidth txt ''Helvetica-Bold'' font_size,
      SaveState, Translate (page_width / 2) (page_height / 2), Rotate rotation,
      DrawCentredString 0 0 txt, RestoreState, Save] =
     [(txt,
       (of_rat page_width / 2 - sin (deg rotation * pi / 180) * ((ascent - descent) / 2),
        of_rat page_height / 2 + cos (deg rotation * pi / 180) * ((ascent - descent) / 2)))]"
  by (simp add: box_centres_def ctm_identity_def Let_def of_rat_divide midpoint2_def
      algebra_simps add_divide_distrib diff_divide_distrib)

lemma off_centre_iff:
  fixes t c x y :: real
  shows "(x - sin t * c, y + cos t * c) = (x, y) \<longleftrightarrow> c = 0"
proof
  assume "(x - sin t * c, y + cos t * c) = (x, y)"
  then have s: "sin t * c = 0" and k: "cos t * c = 0" by simp_all
  show "c = 0"
  proof (rule ccontr)
    assume "c \<noteq> 0"
    then have "sin t = 0" and "cos t = 0" using s k by simp_all
    then show False using sin_cos_squared_add [of t] by simp
  qed
qed simp

lemma diagonal_box_centre_iff:
  "box_centres deg width ascent descent
     [SetFillColor r g b opacity, SetFont ''Helvetica-Bold'' font_size,
      StringWidth txt ''Helvetica-Bold'' font_size,
      SaveState, Translate (page_width / 2) (page_height / 2), Rotate rotation,
      DrawCentredString 0 0 txt, RestoreState, Save] =
     [(txt, (of_rat page_width / 2, of_rat page_height / 2))]
   \<longleftrightarrow> ascent = descent"
  unfolding diagonal_box_centre
  using off_centre_iff [of "of_rat page_width / 2" "deg rotation * pi / 180"
      "(ascent - descent) / 2" "of_rat page_height / 2"]
  by simp

text \<open>
  C6: the text \<open>DRAFT\<close> on a page 612 wide and 792 high with the default options
  (position \<open>diagonal\<close>, rotation 45, font size 48). The loop body makes the calls
  \<open>saveState\<close>, \<open>translate(306, 396)\<close>, \<open>rotate(45)\<close>, \<open>drawCentredString(0, 0, text)\<close>,
  \<open>restoreState\<close> on the overlay that is merged into the page. In Helvetica-Bold the
  ascent is 718 and the descent 207 thousandths of the font size, so for every text
  width the centre of the box of the drawn text is 12.264 from the centre
  \<open>(306, 396)\<close> of the page, at a right angle to the baseline: the visual centre of the
  rotated text is not the centre of the page.
\<close>

theorem diagonal_watermark_off_centre:
  "watermark_options (PDict []) =
     Inr (PFloat (fl (3 / 10)), PInt 48, PInt 45, PStr ''diagonal'',
          PDict [(''r'', PFloat (1 / 2)), (''g'', PFloat (1 / 2)), (''b'', PFloat (1 / 2))])
   \<and> watermark_page demo_pdf_env ''DRAFT'' (PFloat (fl (3 / 10))) (PInt 48) (PInt 45)
       (PStr ''diagonal'')
       (PDict [(''r'', PFloat (1 / 2)), (''g'', PFloat (1 / 2)), (''b'', PFloat (1 / 2))])
       ((612, 792), []) =
     Inr ((612, 792),
       [SetFillColor (PFloat (1 / 2)) (PFloat (1 / 2)) (PFloat (1 / 2)) (PFloat (fl (3 / 10))),
        SetFont ''Helvetica-Bold'' (PInt 48), StringWidth ''DRAFT'' ''Helvetica-Bold'' (PInt 48),
        SaveState, Translate 306 396, Rotate (PInt 45), DrawCentredString 0 0 ''DRAFT'',
        RestoreState, Save])
   \<and> (\<forall>width.
        box_centres number width (718 * 48 / 1000) (207 * 48 / 1000)
          [SetFillColor (PFloat (1 / 2)) (PFloat (1 / 2)) (PFloat (1 / 2)) (PFloat (fl (3 / 10))),
           SetFont ''Helvetica-Bold'' (PInt 48), StringWidth ''DRAFT'' ''Helvetica-Bold'' (PInt 48),
           SaveState, Translate 306 396, Rotate (PInt 45), DrawCentredString 0 0 ''DRAFT'',
           RestoreState, Save] =
        [(''DRAFT'', (306 - sqrt 2 / 2 * (1533 / 125), 396 + sqrt 2 / 2 * (1533 / 125)))]
      \<and> box_centres number width (718 * 48 / 1000) (207 * 48 / 1000)
          [SetFillColor (PFloat (1 / 2)) (PFloat (1 / 2)) (PFloat (1 / 2)) (PFloat (fl (3 / 10))),
           SetFont ''Helvetica-Bold'' (PInt 48), StringWidth ''DRAFT'' ''Helvetica-Bold'' (PInt 48),
           SaveState, Translate 306 396, Rotate (PInt 45), DrawCentredString 0 0 ''DRAFT'',
           RestoreState, Save] \<noteq>
        [(''DRAFT'', (306, 396))])"
proof -
  have a: "(45 * pi / 180 :: real) = pi / 4" by simp
  have centres: "box_centres number width (718 * 48 / 1000) (207 * 48 / 1000)
          [SetFillColor (PFloat (1 / 2)) (PFloat (1 / 2)) (PFloat (1 / 2)) (PFloat (fl (3 / 10))),
           SetFont ''Helvetica-Bold'' (PInt 48), StringWidth ''DRAFT'' ''Helvetica-Bold'' (PInt 48),
           SaveState, Translate 306 396, Rotate (PInt 45), DrawCentredString 0 0 ''DRAFT'',
           RestoreState, Save] =
        [(''DRAFT'', (306 - sqrt 2 / 2 * (1533 / 125), 396 + sqrt 2 / 2 * (1533 / 125)))]"
    for width
    using diagonal_box_centre [of number width "718 * 48 / 1000" "207 * 48 / 1000"
        "PFloat (1 / 2)" "PFloat (1 / 2)" "PFloat (1 / 2)" "PFloat (fl (3 / 10))" "PInt 48"
        "''DRAFT''" 612 792 "PInt 45"]
    by (simp add: a sin_45 cos_45)
  have page: "watermark_page demo_pdf_env ''DRAFT'' (PFloat (fl (3 / 10))) (PInt 48) (PInt 45)
       (PStr ''diagonal'')
       (PDict [(''r'', PFloat (1 / 2)), (''g'', PFloat (1 / 2)), (''b'', PFloat (1 / 2))])
       ((612, 792), []) =
     Inr ((612, 792),
       [SetFillColor (PFloat (1 / 2)) (PFloat (1 / 2)) (PFloat (1 / 2)) (PFloat (fl (3 / 10))),
        SetFont ''Helvetica-Bold'' (PInt 48), StringWidth ''DRAFT'' ''Helvetica-Bold'' (PInt 48),
        SaveState, Translate 306 396, Rotate (PInt 45), DrawCentredString 0 0 ''DRAFT'',
        RestoreState, Save])"
    by (simp add: demo_watermark_page page_ops_def position_ops_def)
  show ?thesis
    unfolding centres using demo_watermark_options_default page by simp
qed

text \<open>
  C7: when the options are a dict (or \<open>None\<close>), the reader gives \<open>N\<close> pages, the
  overlay and the merge succeed on each page and the output is written, the report is
  a success with \<open>pages = N\<close>; the writer holds one page for each page of the input, in
  the input's order, each the result of the loop body on that page alone. With no page
  the loop body is not run and the writer's list is empty.
\<close>

theorem add_watermark_page_count:
  assumes "watermark_options options = Inr (opacity, font_size, rotation, position, color)"
      and "PdfReader env w input_path = Inr pages"
      and "\<forall>page\<in>set pages.
             \<exists>p. watermark_page env txt opacity font_size rotation position color page = Inr p"
      and "write_pdf env output_path
             (map (\<lambda>page. projr
                (watermark_page env txt opacity font_size rotation position color page)) pages) w
           = (None, w')"
  shows "add_watermark env w input_path output_path txt options =
           ([(''success'', PBool True), (''pages'', PInt (int (length pages))),
             (''watermark'', PStr txt), (''position'', position)], w')
         \<and> watermark_pages env txt opacity font_size rotation position color pages =
             Inr (map (\<lambda>page. projr
                    (watermark_page env txt opacity font_size rotation position color page)) pages)
         \<and> watermark_pages env txt opacity font_size rotation position color [] = Inr []"
  using add_watermark_success [OF assms] watermark_pages_success [OF assms(3)] by simp

theorem add_watermark_page_count_witness:
  "fst (add_watermark demo_pdf_env demo_world ''in.pdf'' ''out.pdf'' ''DRAFT'' (PDict [])) =
     [(''success'', PBool True), (''pages'', PInt 2), (''watermark'', PStr ''DRAFT''),
      (''position'', PStr ''diagonal'')]
   \<and> fst (add_watermark demo_pdf_env demo_world ''empty.pdf'' ''out.pdf'' ''DRAFT'' PNone) =
     [(''success'', PBool True), (''pages'', PInt 0), (''watermark'', PStr ''DRAFT''),
      (''position'', PStr ''diagonal'')]"
proof -
  have opts: "watermark_options PNone = watermark_options (PDict [])"
    by (simp add: watermark_options_def)
  have r2: "PdfReader demo_pdf_env demo_world ''in.pdf'' = Inr [((612, 792), []), ((595, 842), [])]"
    by (simp add: demo_pdf_env_def demo_world_def)
  have r0: "PdfReader demo_pdf_env demo_world ''empty.pdf'' = Inr []"
    by (simp add: demo_pdf_env_def demo_world_def)
  have wr: "write_pdf demo_pdf_env p ps demo_world =
              (None, snd (write_pdf demo_pdf_env p ps demo_world))" for p ps
    by (simp add: demo_pdf_env_def)
  have "fst (add_watermark demo_pdf_env demo_world ''in.pdf'' ''out.pdf'' ''DRAFT'' (PDict [])) =
     [(''success'', PBool True), (''pages'', PInt 2), (''watermark'', PStr ''DRAFT''),
      (''position'', PStr ''diagonal'')]"
    using add_watermark_page_count [OF demo_watermark_options_default r2 _ wr, of "''DRAFT''" "''out.pdf''"]
    by (simp add: demo_watermark_page)
  moreover
  have "fst (add_watermark demo_pdf_env demo_world ''empty.pdf'' ''out.pdf'' ''DRAFT'' PNone) =
     [(''success'', PBool True), (''pages'', PInt 0), (''watermark'', PStr ''DRAFT''),
      (''position'', PStr ''diagonal'')]"
    using add_watermark_page_count
      [OF demo_watermark_options_default [folded opts] r0 _ wr, of "''DRAFT''" "''out.pdf''"]
    by simp
  ultimately show ?thesis by simp
qed




end
